theory Spec2Isabelle
  imports Complex_Main
begin

section \<open>Array values\<close>

text \<open>
  The metrics compute on NumPy float arrays. An array entry that can be infinite
  or undefined is modelled by \<open>fl\<close>: a finite value (an exact real), plus or minus
  infinity, or NaN. Rounding, overflow and the sign of zero are outside the
  model. Entries that the code only reads as finite numbers (attributions,
  similarity matrices, hidden representations) are reals.
\<close>

datatype fl = Fin real | PInf | NInf | NaN

datatype error = ValueError | IndexError

text \<open>Elementwise true division of NumPy (\<open>x / y\<close>) on one pair of entries.\<close>

fun fl_div :: "fl \<Rightarrow> fl \<Rightarrow> fl" where
  "fl_div NaN y = NaN"
| "fl_div (Fin x) NaN = NaN"
| "fl_div PInf NaN = NaN"
| "fl_div NInf NaN = NaN"
| "fl_div (Fin x) (Fin y) =
     (if y \<noteq> 0 then Fin (x / y)
      else if x = 0 then NaN
      else if 0 < x then PInf else NInf)"
| "fl_div (Fin x) PInf = Fin 0"
| "fl_div (Fin x) NInf = Fin 0"
| "fl_div PInf (Fin y) = (if 0 \<le> y then PInf else NInf)"
| "fl_div NInf (Fin y) = (if 0 \<le> y then NInf else PInf)"
| "fl_div PInf PInf = NaN"
| "fl_div PInf NInf = NaN"
| "fl_div NInf PInf = NaN"
| "fl_div NInf NInf = NaN"

text \<open>The comparisons \<open><\<close> and \<open>\<le>\<close> of floats: every comparison with NaN is false.\<close>

fun fl_less :: "fl \<Rightarrow> fl \<Rightarrow> bool" where
  "fl_less NaN y = False"
| "fl_less x NaN = False"
| "fl_less (Fin x) (Fin y) = (x < y)"
| "fl_less (Fin x) PInf = True"
| "fl_less (Fin x) NInf = False"
| "fl_less PInf y = False"
| "fl_less NInf NInf = False"
| "fl_less NInf y = True"

fun fl_le :: "fl \<Rightarrow> fl \<Rightarrow> bool" where
  "fl_le NaN y = False"
| "fl_le x NaN = False"
| "fl_le (Fin x) (Fin y) = (x \<le> y)"
| "fl_le (Fin x) PInf = True"
| "fl_le (Fin x) NInf = False"
| "fl_le PInf PInf = True"
| "fl_le PInf y = False"
| "fl_le NInf y = True"

text \<open>
  \<open>np.maximum\<close> (NaN wins) and \<open>np.fmax\<close> (NaN loses unless both are NaN) on one
  pair of entries: the binary operations that \<open>np.max\<close> and \<open>np.nanmax\<close> reduce with.
\<close>

fun fl_maximum :: "fl \<Rightarrow> fl \<Rightarrow> fl" where
  "fl_maximum NaN y = NaN"
| "fl_maximum (Fin x) NaN = NaN"
| "fl_maximum PInf NaN = NaN"
| "fl_maximum NInf NaN = NaN"
| "fl_maximum x y = (if fl_less x y then y else x)"

fun fl_fmax :: "fl \<Rightarrow> fl \<Rightarrow> fl" where
  "fl_fmax NaN y = y"
| "fl_fmax (Fin x) NaN = Fin x"
| "fl_fmax PInf NaN = PInf"
| "fl_fmax NInf NaN = NInf"
| "fl_fmax x y = (if fl_less x y then y else x)"




text \<open>
  A two-dimensional array is a list of rows; \<open>has_shape r c m\<close> is
  \<open>m.shape == (r, c)\<close>.
\<close>

definition has_shape :: "nat \<Rightarrow> nat \<Rightarrow> 'a list list \<Rightarrow> bool" where
  "has_shape r c m = (length m = r \<and> list_all (\<lambda>row. length row = c) m)"

text \<open>
  \<open>np.max(m, axis)\<close> and \<open>np.nanmax(m, axis)\<close> over the outer list: the argument
  is the list of the slices that are reduced with each other, all of one length.
  Reducing over an axis of length zero raises \<open>ValueError\<close> (the reduction has no
  identity).
\<close>

definition np_max :: "fl list list \<Rightarrow> error + fl list" where
  "np_max slices =
     (case slices of [] \<Rightarrow> Inl ValueError | c # cs \<Rightarrow> Inr (foldl (map2 fl_maximum) c cs))"

definition np_nanmax :: "fl list list \<Rightarrow> error + fl list" where
  "np_nanmax slices =
     (case slices of [] \<Rightarrow> Inl ValueError | c # cs \<Rightarrow> Inr (foldl (map2 fl_fmax) c cs))"

text \<open>
  \<open>arr[indices] = np.nan\<close> for a one-dimensional array and a list of positions;
  a position outside the array raises \<open>IndexError\<close>.
\<close>

definition set_nan :: "nat list \<Rightarrow> fl list \<Rightarrow> error + fl list" where
  "set_nan indices arr =
     (if list_all (\<lambda>i. i < length arr) indices
      then Inr (fold (\<lambda>i v. v[i := NaN]) indices arr)
      else Inl IndexError)"

section \<open>The model adapter and the changed-prediction detector\<close>

text \<open>
  The model is opaque. The metrics use two of its capabilities: the predicted
  class of each instance of a batch (\<open>np.argmax(model.predict(x), axis=1)\<close>) and
  the hidden representations of a batch, one row per instance. \<open>'x\<close> is the type
  of one input instance.
\<close>

record 'x model_interface =
  predict_classes :: "'x list \<Rightarrow> nat list"
  get_hidden_representations ::
    "'x list \<Rightarrow> string list option \<Rightarrow> int list option \<Rightarrow> real list list"

text \<open>
  Modelled from the spec: \<open>quantus.helpers.perturbation_utils\<close>, which defines
  \<open>make_changed_prediction_indices_func\<close>, is not among the sources. The spec
  (4.3): the detector returns the indices of the instances whose argmax class
  differs between the inputs before and after perturbation; in the mode without
  masking, detection is a no-op that returns the empty set. The mode is chosen
  when the metric is constructed.
\<close>

definition changed_prediction_indices ::
  "bool \<Rightarrow> 'x model_interface \<Rightarrow> 'x list \<Rightarrow> 'x list \<Rightarrow> nat list" where
  "changed_prediction_indices return_nan_when_prediction_changes model x_before x_after =
     (if return_nan_when_prediction_changes
      then filter (\<lambda>i. predict_classes model x_before ! i \<noteq> predict_classes model x_after ! i)
             [0..<length x_before]
      else [])"

definition make_changed_prediction_indices_func ::
  "bool \<Rightarrow> 'x model_interface \<Rightarrow> 'x list \<Rightarrow> 'x list \<Rightarrow> nat list" where
  "make_changed_prediction_indices_func return_nan_when_prediction_changes =
     changed_prediction_indices return_nan_when_prediction_changes"

text \<open>
  One draw of the random process inside a Monte Carlo loop: the perturbed batch
  returned by \<open>perturb_func\<close> and the explanation that \<open>explain_batch\<close> returns for
  it. A realization of the process is a function from the step number to the
  draw of that step.
\<close>

record ('x, 'e) perturbation =
  x_perturbed :: "'x list"
  a_perturbed :: "'e"

section \<open>Sufficiency (quantus/metrics/faithfulness/sufficiency.py)\<close>

text \<open>
  The batch context that the engine hands to \<open>evaluate_batch\<close>: the three arrays
  returned by \<open>custom_batch_preprocess\<close>. \<open>evaluate_batch\<close> receives the arrays by
  reference, so the model returns the context after the call together with the
  scores.
\<close>

record batch_context =
  i_batch :: "nat list"
  a_sim_vector_batch :: "real list list"
  y_pred_classes :: "nat list"






text \<open>\<open>np.eye(batch_size, dtype=np.int32)\<close> and \<open>1 - m\<close>.\<close>

definition eye :: "nat \<Rightarrow> int list list" where
  "eye n = map (\<lambda>i. map (\<lambda>j. if i = j then 1 else 0) [0..<n]) [0..<n]"

definition one_minus :: "int list list \<Rightarrow> int list list" where
  "one_minus m = map (map (\<lambda>x. 1 - x)) m"

text \<open>\<open>a *= k\<close> for a float array \<open>a\<close> and an integer array \<open>k\<close> of the same shape.\<close>

definition imul :: "real list list \<Rightarrow> int list list \<Rightarrow> real list list" where
  "imul a k = map2 (map2 (\<lambda>x c. x * real_of_int c)) a k"

text \<open>\<open>y[None] == y[:, None]\<close>: entry \<open>(i, j)\<close> is \<open>y[j] == y[i]\<close>.\<close>

definition pred_classes_equality :: "nat list \<Rightarrow> bool list list" where
  "pred_classes_equality y = map (\<lambda>yi. map (\<lambda>yj. yj = yi) y) y"

text \<open>\<open>b * a\<close> for a boolean array \<open>b\<close> (True is 1, False is 0), and \<open>m.sum(-1)\<close>.\<close>

definition bool_mul :: "bool list list \<Rightarrow> real list list \<Rightarrow> real list list" where
  "bool_mul b a = map2 (map2 (\<lambda>p x. (if p then 1 else 0) * x)) b a"

definition sum_last :: "real list list \<Rightarrow> real list" where
  "sum_last m = map sum_list m"

text \<open>\<open>np.where(low_dist_freqs == 0, np.inf, low_dist_freqs)\<close>.\<close>

definition where_zero_inf :: "real list \<Rightarrow> fl list" where
  "where_zero_inf fs = map (\<lambda>f. if f = 0 then PInf else Fin f) fs"

text \<open>
  \<open>Sufficiency.evaluate_batch\<close> (lines 581 to 588). The engine passes a square
  matrix of side \<open>batch_size\<close>; for any other shape of \<open>a_sim_vector_batch\<close> the
  in-place product with the identity mask does not fit, which the model reports
  as \<open>ValueError\<close> (NumPy broadcasting of unequal shapes is not modelled).
\<close>

definition Sufficiency_evaluate_batch ::
  "batch_context \<Rightarrow> error + (batch_context \<times> fl list)" where
  "Sufficiency_evaluate_batch ctx =
     (let batch_size = length (y_pred_classes ctx) in
      if \<not> has_shape batch_size batch_size (a_sim_vector_batch ctx) then Inl ValueError
      else
        let a = imul (a_sim_vector_batch ctx) (one_minus (eye batch_size));
            equality = pred_classes_equality (y_pred_classes ctx);
            low_dist_freqs = sum_last a
        in Inr (ctx\<lparr>a_sim_vector_batch := a\<rparr>,
                map2 fl_div (map Fin (sum_last (bool_mul equality a)))
                            (where_zero_inf low_dist_freqs)))"

text \<open>\<open>BatchSufficiency.evaluate_batch\<close> (lines 301 to 308).\<close>

definition BatchSufficiency_evaluate_batch ::
  "batch_context \<Rightarrow> error + (batch_context \<times> fl list)" where
  "BatchSufficiency_evaluate_batch ctx =
     (let batch_size = length (y_pred_classes ctx) in
      if \<not> has_shape batch_size batch_size (a_sim_vector_batch ctx) then Inl ValueError
      else
        let a = imul (a_sim_vector_batch ctx) (one_minus (eye batch_size));
            equality = pred_classes_equality (y_pred_classes ctx);
            low_dist_freqs = sum_last a
        in Inr (ctx\<lparr>a_sim_vector_batch := a\<rparr>,
                map2 fl_div (map Fin (sum_last (bool_mul equality a)))
                            (where_zero_inf low_dist_freqs)))"

text \<open>A similarity matrix as thresholding builds it: every entry is 0 or 1.\<close>

definition binary_matrix :: "real list list \<Rightarrow> bool" where
  "binary_matrix m = list_all (list_all (\<lambda>x. x = 0 \<or> x = 1)) m"

section \<open>Max-Sensitivity (quantus/metrics/robustness/max_sensitivity.py)\<close>

text \<open>
  The attributes that \<open>MaxSensitivity.__init__\<close> stores and \<open>evaluate_batch\<close>
  reads. The similarity and norm functions are configuration (their defaults,
  \<open>difference\<close> and \<open>fro_norm\<close>, live in \<open>quantus.functions\<close>): a similarity maps
  two batches of flattened attributions to a batch, a norm maps a batch to one
  number per instance.
\<close>

record 'x max_sensitivity =
  nr_samples :: nat
  similarity_func :: "real list list \<Rightarrow> real list list \<Rightarrow> real list list"
  norm_numerator :: "real list list \<Rightarrow> real list"
  norm_denominator :: "real list list \<Rightarrow> real list"
  changed_prediction_indices_func :: "'x model_interface \<Rightarrow> 'x list \<Rightarrow> 'x list \<Rightarrow> nat list"
  max_func :: "fl list list \<Rightarrow> error + fl list"

text \<open>\<open>MaxSensitivity.__init__\<close>, lines 147 to 168.\<close>

definition MaxSensitivity_init ::
  "(real list list \<Rightarrow> real list list \<Rightarrow> real list list) \<Rightarrow> (real list list \<Rightarrow> real list)
   \<Rightarrow> (real list list \<Rightarrow> real list) \<Rightarrow> nat \<Rightarrow> bool \<Rightarrow> 'x max_sensitivity" where
  "MaxSensitivity_init similarity_func' norm_numerator' norm_denominator' nr_samples'
       return_nan_when_prediction_changes =
     \<lparr>nr_samples = nr_samples',
      similarity_func = similarity_func',
      norm_numerator = norm_numerator',
      norm_denominator = norm_denominator',
      changed_prediction_indices_func =
        make_changed_prediction_indices_func return_nan_when_prediction_changes,
      max_func = (if return_nan_when_prediction_changes then np_max else np_nanmax)\<rparr>"

text \<open>\<open>numerator / denominator\<close> for two one-dimensional arrays of one length.\<close>

definition true_divide :: "real list \<Rightarrow> real list \<Rightarrow> fl list" where
  "true_divide numerator denominator =
     map2 (\<lambda>n d. fl_div (Fin n) (Fin d)) numerator denominator"

text \<open>
  One pass of the loop body of \<open>MaxSensitivity.evaluate_batch\<close> (lines 327 to
  351): the column \<open>similarities[:, step_id]\<close> that the pass writes. \<open>a_batch\<close> is
  the attribution batch after \<open>reshape(batch_size, -1)\<close>. The assignment of the
  quotient into the column needs one value per instance; other lengths are
  reported as \<open>ValueError\<close>.
\<close>

definition MaxSensitivity_step ::
  "'x max_sensitivity \<Rightarrow> 'x model_interface \<Rightarrow> 'x list \<Rightarrow> real list list
   \<Rightarrow> ('x, real list list) perturbation \<Rightarrow> error + fl list" where
  "MaxSensitivity_step self model x_batch a_batch p =
     (let batch_size = length x_batch;
          changed_prediction_indices =
            changed_prediction_indices_func self model x_batch (x_perturbed p);
          sensitivities = similarity_func self a_batch (a_perturbed p);
          numerator = norm_numerator self sensitivities;
          denominator = norm_denominator self a_batch
      in if length numerator \<noteq> batch_size \<or> length denominator \<noteq> batch_size then Inl ValueError
         else set_nan changed_prediction_indices (true_divide numerator denominator))"

text \<open>
  The loop over \<open>range(self.nr_samples)\<close>. \<open>similarities\<close> is kept by column:
  entry \<open>s\<close> of the list is \<open>similarities[:, s]\<close>.
\<close>

fun MaxSensitivity_loop ::
  "'x max_sensitivity \<Rightarrow> 'x model_interface \<Rightarrow> 'x list \<Rightarrow> real list list
   \<Rightarrow> (nat \<Rightarrow> ('x, real list list) perturbation) \<Rightarrow> nat list \<Rightarrow> fl list list
   \<Rightarrow> error + fl list list" where
  "MaxSensitivity_loop self model x_batch a_batch draws [] similarities = Inr similarities"
| "MaxSensitivity_loop self model x_batch a_batch draws (step_id # steps) similarities =
     (case MaxSensitivity_step self model x_batch a_batch (draws step_id) of
        Inl e \<Rightarrow> Inl e
      | Inr column \<Rightarrow>
          MaxSensitivity_loop self model x_batch a_batch draws steps
            (similarities[step_id := column]))"

text \<open>\<open>MaxSensitivity.evaluate_batch\<close> (lines 323 to 353).\<close>

definition MaxSensitivity_evaluate_batch ::
  "'x max_sensitivity \<Rightarrow> 'x model_interface \<Rightarrow> 'x list \<Rightarrow> real list list
   \<Rightarrow> (nat \<Rightarrow> ('x, real list list) perturbation) \<Rightarrow> error + fl list" where
  "MaxSensitivity_evaluate_batch self model x_batch a_batch draws =
     (let batch_size = length x_batch;
          similarities = replicate (nr_samples self) (replicate batch_size NaN)
      in case MaxSensitivity_loop self model x_batch a_batch draws [0..<nr_samples self]
                similarities of
           Inl e \<Rightarrow> Inl e
         | Inr similarities \<Rightarrow> max_func self similarities)"




section \<open>Relative Representation Stability
  (quantus/metrics/robustness/relative_representation_stability.py)\<close>

text \<open>
  An explanation batch by its number of dimensions (batch dimension included):
  the objective accepts ranks 2, 3 and 4. \<open>RankOther\<close> stands for an array of any
  other rank.
\<close>

datatype 'a ndarray =
    Rank2 "'a list list"
  | Rank3 "'a list list list"
  | Rank4 "'a list list list list"
  | RankOther

text \<open>
  An elementwise binary operation on two arrays of one shape. Arrays of unequal
  shapes give \<open>None\<close> (NumPy broadcasting of unequal shapes is not modelled).
\<close>

fun zip_ndarray :: "('a \<Rightarrow> 'a \<Rightarrow> 'b) \<Rightarrow> 'a ndarray \<Rightarrow> 'a ndarray \<Rightarrow> 'b ndarray option" where
  "zip_ndarray f (Rank2 a) (Rank2 b) =
     (if map length a = map length b then Some (Rank2 (map2 (map2 f) a b)) else None)"
| "zip_ndarray f (Rank3 a) (Rank3 b) =
     (if map (map length) a = map (map length) b
      then Some (Rank3 (map2 (map2 (map2 f)) a b)) else None)"
| "zip_ndarray f (Rank4 a) (Rank4 b) =
     (if map (map (map length)) a = map (map (map length)) b
      then Some (Rank4 (map2 (map2 (map2 (map2 f))) a b)) else None)"
| "zip_ndarray f a b = None"

fun fin_value :: "fl \<Rightarrow> real" where
  "fin_value (Fin x) = x"
| "fin_value PInf = 0"
| "fin_value NInf = 0"
| "fin_value NaN = 0"

text \<open>
  \<open>np.linalg.norm\<close> of a vector (and the Frobenius norm of a matrix, on the list
  of its entries): the square root of the sum of squares. A NaN entry gives NaN,
  otherwise an infinite entry gives infinity.
\<close>

definition linalg_norm :: "fl list \<Rightarrow> fl" where
  "linalg_norm v =
     (if NaN \<in> set v then NaN
      else if PInf \<in> set v \<or> NInf \<in> set v then PInf
      else Fin (sqrt (\<Sum>x\<leftarrow>v. (fin_value x)\<^sup>2)))"

text \<open>The \<open>norm_function\<close> chosen by \<open>e_x.ndim\<close> (lines 263 to 271).\<close>

fun norm_function :: "fl ndarray \<Rightarrow> error + fl list" where
  "norm_function (Rank4 arr) =
     Inr (map (\<lambda>instance. linalg_norm (map (\<lambda>channel. linalg_norm (concat channel)) instance))
            arr)"
| "norm_function (Rank3 arr) = Inr (map (\<lambda>instance. linalg_norm (concat instance)) arr)"
| "norm_function (Rank2 arr) = Inr (map linalg_norm arr)"
| "norm_function RankOther = Inl ValueError"

text \<open>\<open>(x - xs) / (x + (x == 0) * eps_min)\<close> on one pair of entries.\<close>

definition relative_change :: "real \<Rightarrow> real \<Rightarrow> real \<Rightarrow> fl" where
  "relative_change eps_min x xs =
     fl_div (Fin (x - xs)) (Fin (x + (if x = 0 then eps_min else 0)))"

text \<open>\<open>d += (d == 0) * eps_min\<close> on one entry.\<close>

fun add_where_zero :: "real \<Rightarrow> fl \<Rightarrow> fl" where
  "add_where_zero eps_min (Fin d) = Fin (d + (if d = 0 then eps_min else 0))"
| "add_where_zero eps_min PInf = PInf"
| "add_where_zero eps_min NInf = NInf"
| "add_where_zero eps_min NaN = NaN"

text \<open>
  \<open>relative_representation_stability_objective\<close> (lines 263 to 281). The hidden
  representations \<open>l_x\<close>, \<open>l_xs\<close> have one row per instance.
\<close>

definition relative_representation_stability_objective ::
  "real \<Rightarrow> real list list \<Rightarrow> real list list \<Rightarrow> real ndarray \<Rightarrow> real ndarray
   \<Rightarrow> error + fl list" where
  "relative_representation_stability_objective eps_min l_x l_xs e_x e_xs =
     (if e_x = RankOther then Inl ValueError
      else case zip_ndarray (relative_change eps_min) e_x e_xs of
        None \<Rightarrow> Inl ValueError
      | Some nominator \<Rightarrow>
         (case norm_function nominator of
            Inl e \<Rightarrow> Inl e
          | Inr nominator \<Rightarrow>
              if map length l_x \<noteq> map length l_xs then Inl ValueError
              else
                let denominator = map2 (map2 (relative_change eps_min)) l_x l_xs;
                    denominator = map linalg_norm denominator;
                    denominator = map (add_where_zero eps_min) denominator
                in if length nominator \<noteq> length denominator then Inl ValueError
                   else Inr (map2 fl_div nominator denominator)))"

text \<open>
  The constructor arguments that the claims are about, and the attributes that
  the constructor stores. The base class constructor and the helper factories
  are not among the sources; they are taken to return normally.
\<close>

record rrs_args =
  arg_nr_samples :: nat
  arg_eps_min :: real
  arg_layer_names :: "string list option"
  arg_layer_indices :: "int list option"
  arg_return_nan_when_prediction_changes :: bool
  arg_return_aggregate :: bool
  arg_aggregate_func :: "fl list \<Rightarrow> fl"

record 'x relative_representation_stability =
  rrs_nr_samples :: nat
  rrs_eps_min :: real
  rrs_layer_names :: "string list option"
  rrs_layer_indices :: "int list option"
  rrs_changed_prediction_indices_func ::
    "'x model_interface \<Rightarrow> 'x list \<Rightarrow> 'x list \<Rightarrow> nat list"
  rrs_return_aggregate :: bool
  rrs_aggregate_func :: "fl list \<Rightarrow> fl"

text \<open>\<open>RelativeRepresentationStability.__init__\<close>, lines 130 to 152.\<close>

definition RelativeRepresentationStability_init ::
  "rrs_args \<Rightarrow> error + 'x relative_representation_stability" where
  "RelativeRepresentationStability_init args =
     (if arg_layer_names args \<noteq> None \<and> arg_layer_indices args \<noteq> None then Inl ValueError
      else Inr \<lparr>rrs_nr_samples = arg_nr_samples args,
                rrs_eps_min = arg_eps_min args,
                rrs_layer_names = arg_layer_names args,
                rrs_layer_indices = arg_layer_indices args,
                rrs_changed_prediction_indices_func =
                  make_changed_prediction_indices_func
                    (arg_return_nan_when_prediction_changes args),
                rrs_return_aggregate = arg_return_aggregate args,
                rrs_aggregate_func = arg_aggregate_func args\<rparr>)"

text \<open>
  One pass of the loop body of \<open>evaluate_batch\<close> (lines 320 to 347): the row
  \<open>rrs_batch[index]\<close> that the pass writes.
\<close>

definition RelativeRepresentationStability_step ::
  "'x relative_representation_stability \<Rightarrow> 'x model_interface \<Rightarrow> 'x list \<Rightarrow> real ndarray
   \<Rightarrow> real list list \<Rightarrow> ('x, real ndarray) perturbation \<Rightarrow> error + fl list" where
  "RelativeRepresentationStability_step self model x_batch a_batch internal_representations p =
     (let a_batch_perturbed = a_perturbed p;
          internal_representations_perturbed =
            get_hidden_representations model (x_perturbed p)
              (rrs_layer_names self) (rrs_layer_indices self)
      in case relative_representation_stability_objective (rrs_eps_min self)
                internal_representations internal_representations_perturbed
                a_batch a_batch_perturbed of
           Inl e \<Rightarrow> Inl e
         | Inr rrs \<Rightarrow>
             if length rrs \<noteq> length x_batch then Inl ValueError
             else
               let changed_prediction_indices =
                     rrs_changed_prediction_indices_func self model x_batch (x_perturbed p)
               in if length changed_prediction_indices \<noteq> 0
                  then set_nan changed_prediction_indices rrs
                  else Inr rrs)"





section \<open>Example inputs\<close>

text \<open>
  Modelled from the spec: \<open>quantus.functions\<close> is not among the sources. The spec
  (2) names the default similarity and norm functions: the difference of two
  tensors and the Frobenius norm, here taken per instance of a flattened batch.
\<close>

definition difference :: "real list list \<Rightarrow> real list list \<Rightarrow> real list list" where
  "difference a b = map2 (map2 (\<lambda>x y. x - y)) a b"

definition fro_norm :: "real list list \<Rightarrow> real list" where
  "fro_norm a = map (\<lambda>row. sqrt (\<Sum>x\<leftarrow>row. x\<^sup>2)) a"



text \<open>
  Three instances: the first two have similar attributions and the same
  predicted class, the third is similar to no other instance.
\<close>

definition example_context :: batch_context where
  "example_context = \<lparr>i_batch = [0, 1, 2],
      a_sim_vector_batch = [[1, 1, 0], [1, 1, 0], [0, 0, 1]],
      y_pred_classes = [0, 0, 1]\<rparr>"

text \<open>
  A model on numbered inputs: input 10 is predicted as class 1, every other
  input as class 0; the hidden representation of input \<open>x\<close> is the vector \<open>[1 + x]\<close>.
\<close>

definition example_model :: "nat model_interface" where
  "example_model =
     \<lparr>predict_classes = map (\<lambda>x. if x = 10 then 1 else 0),
      get_hidden_representations = (\<lambda>xs names indices. map (\<lambda>x. [1 + real x]) xs)\<rparr>"

text \<open>
  A realization of the perturbation process for a batch of two instances with
  one attribution feature each: step \<open>s\<close> moves the first attribution to \<open>1 + s\<close>.
\<close>

definition example_draws :: "nat \<Rightarrow> (nat, real list list) perturbation" where
  "example_draws s = \<lparr>x_perturbed = [10, 11], a_perturbed = [[1 + real s], [2]]\<rparr>"

definition example_args :: rrs_args where
  "example_args =
     \<lparr>arg_nr_samples = 1, arg_eps_min = 1 / 1000000,
      arg_layer_names = None, arg_layer_indices = None,
      arg_return_nan_when_prediction_changes = True,
      arg_return_aggregate = False, arg_aggregate_func = (\<lambda>scores. NaN)\<rparr>"

text \<open>
  A realization in which the first draw keeps both predicted classes and every
  later draw changes the predicted class of the first instance; the explanation
  of every draw is the same.
\<close>

definition masking_draws :: "nat \<Rightarrow> (nat, real list list) perturbation" where
  "masking_draws s =
     \<lparr>x_perturbed = (if s = 0 then [2, 3] else [10, 11]), a_perturbed = [[3], [2]]\<rparr>"



section \<open>Auxiliary facts\<close>

subsection \<open>Rows of the masked similarity matrix\<close>

lemma has_shape_row: "has_shape r c m \<Longrightarrow> i < r \<Longrightarrow> length (m ! i) = c"
  by (simp add: has_shape_def list_all_length)

lemma has_shape_len: "has_shape r c m \<Longrightarrow> length m = r"
  by (simp add: has_shape_def)

lemma mask_row: "i < n \<Longrightarrow> one_minus (eye n) ! i = map (\<lambda>j. if i = j then 0 else 1) [0..<n]"
  by (simp add: one_minus_def eye_def)

lemma imul_length: "has_shape n n a \<Longrightarrow> length (imul a (one_minus (eye n))) = n"
  by (simp add: imul_def one_minus_def eye_def has_shape_def)

lemma imul_row:
  assumes "has_shape n n a" "i < n"
  shows "imul a (one_minus (eye n)) ! i = map (\<lambda>j. if i = j then 0 else a ! i ! j) [0..<n]"
proof -
  have la: "length a = n" and lr: "length (a ! i) = n"
    using assms by (simp_all add: has_shape_len has_shape_row)
  have "imul a (one_minus (eye n)) ! i = map2 (\<lambda>x c. x * real_of_int c) (a ! i) (one_minus (eye n) ! i)"
    using assms la by (simp add: imul_def one_minus_def eye_def)
  also have "\<dots> = map (\<lambda>j. if i = j then 0 else a ! i ! j) [0..<n]"
    using assms lr by (intro nth_equalityI) (simp_all add: mask_row)
  finally show ?thesis .
qed

lemma sum_excl:
  fixes f :: "nat \<Rightarrow> real"
  assumes "i < n"
  shows "sum_list (map (\<lambda>j. if i = j then 0 else f j) [0..<n]) = (\<Sum>j\<in>{0..<n} - {i}. f j)"
proof -
  have "sum_list (map (\<lambda>j. if i = j then 0 else f j) [0..<n]) = (\<Sum>j\<in>{0..<n}. if i = j then 0 else f j)"
    by (simp add: sum_list_distinct_conv_sum_set)
  also have "\<dots> = (\<Sum>j\<in>{0..<n} - {i}. f j)"
    using assms by (subst sum.remove[of _ i]) (auto intro: sum.cong)
  finally show ?thesis .
qed

lemma freq_row:
  assumes "has_shape n n a" "i < n"
  shows "sum_last (imul a (one_minus (eye n))) ! i = (\<Sum>j\<in>{0..<n} - {i}. a ! i ! j)"
  using assms by (simp add: sum_last_def imul_length imul_row sum_excl)

lemma numer_row:
  assumes "has_shape n n a" "i < n" "length y = n"
  shows "sum_last (bool_mul (pred_classes_equality y) (imul a (one_minus (eye n)))) ! i
         = (\<Sum>j\<in>{0..<n} - {i}. if y ! j = y ! i then a ! i ! j else 0)"
proof -
  have "bool_mul (pred_classes_equality y) (imul a (one_minus (eye n))) ! i
        = map2 (\<lambda>p x. (if p then 1 else 0) * x) (map (\<lambda>yj. yj = y ! i) y) (imul a (one_minus (eye n)) ! i)"
    using assms by (simp add: bool_mul_def pred_classes_equality_def imul_length)
  also have "\<dots> = map (\<lambda>j. if i = j then 0 else (if y ! j = y ! i then a ! i ! j else 0)) [0..<n]"
    using assms by (intro nth_equalityI) (simp_all add: imul_row)
  finally have "bool_mul (pred_classes_equality y) (imul a (one_minus (eye n))) ! i
        = map (\<lambda>j. if i = j then 0 else (if y ! j = y ! i then a ! i ! j else 0)) [0..<n]" .
  moreover have "i < length (bool_mul (pred_classes_equality y) (imul a (one_minus (eye n))))"
    using assms by (simp add: bool_mul_def pred_classes_equality_def imul_length)
  ultimately show ?thesis
    using assms(2) by (simp add: sum_last_def sum_excl)
qed

lemma scores_nth_gen:
  assumes sh: "has_shape n n a" and i: "i < n"
    and y: "y_pred_classes ctx = y" and a: "a_sim_vector_batch ctx = a" and n: "length y = n"
  shows "\<exists>ctx' scores. Sufficiency_evaluate_batch ctx = Inr (ctx', scores)
     \<and> length scores = n
     \<and> scores ! i = fl_div
         (Fin (\<Sum>j\<in>{0..<n} - {i}. if y ! j = y ! i then a ! i ! j else 0))
         (if (\<Sum>j\<in>{0..<n} - {i}. a ! i ! j) = 0 then PInf
          else Fin (\<Sum>j\<in>{0..<n} - {i}. a ! i ! j))"
proof -
  let ?a = "imul a (one_minus (eye n))"
  have l1: "length (sum_last (bool_mul (pred_classes_equality y) ?a)) = n"
    using sh n by (simp add: sum_last_def bool_mul_def pred_classes_equality_def imul_length)
  have l2: "length (where_zero_inf (sum_last ?a)) = n"
    using sh by (simp add: where_zero_inf_def sum_last_def imul_length)
  have w: "where_zero_inf (sum_last ?a) ! i = (if sum_last ?a ! i = 0 then PInf else Fin (sum_last ?a ! i))"
    using sh i by (simp add: where_zero_inf_def sum_last_def imul_length)
  show ?thesis
    using sh i y a n l1 l2 w
    by (simp add: Sufficiency_evaluate_batch_def Let_def freq_row numer_row)
qed

lemma scores_nth:
  assumes "has_shape (length (y_pred_classes ctx)) (length (y_pred_classes ctx)) (a_sim_vector_batch ctx)"
    and "i < length (y_pred_classes ctx)"
  shows "\<exists>ctx' scores. Sufficiency_evaluate_batch ctx = Inr (ctx', scores)
     \<and> length scores = length (y_pred_classes ctx)
     \<and> scores ! i = fl_div
         (Fin (\<Sum>j\<in>{0..<length (y_pred_classes ctx)} - {i}.
              if y_pred_classes ctx ! j = y_pred_classes ctx ! i then a_sim_vector_batch ctx ! i ! j else 0))
         (if (\<Sum>j\<in>{0..<length (y_pred_classes ctx)} - {i}. a_sim_vector_batch ctx ! i ! j) = 0 then PInf
          else Fin (\<Sum>j\<in>{0..<length (y_pred_classes ctx)} - {i}. a_sim_vector_batch ctx ! i ! j))"
  using scores_nth_gen[OF assms refl refl refl] .

lemma binary_nth: "binary_matrix m \<Longrightarrow> i < length m \<Longrightarrow> j < length (m ! i) \<Longrightarrow> m ! i ! j = 0 \<or> m ! i ! j = 1"
  by (simp add: binary_matrix_def list_all_length)

lemma has_shape_diag_update:
  "has_shape n n a \<Longrightarrow> i < n \<Longrightarrow> has_shape n n (a[i := (a ! i)[i := v]])"
  by (auto simp: has_shape_def list_all_length nth_list_update)

lemma upt3: "[0..<3] = [0, 1, 2]" by (simp add: upt_rec)


lemma example_context_eval:
  "Sufficiency_evaluate_batch example_context
   = Inr (example_context\<lparr>a_sim_vector_batch := [[0, 1, 0], [1, 0, 0], [0, 0, 0]]\<rparr>, [Fin 1, Fin 1, Fin 0])"
  by (simp add: example_context_def Sufficiency_evaluate_batch_def has_shape_def eye_def one_minus_def
      imul_def upt3 pred_classes_equality_def bool_mul_def sum_last_def where_zero_inf_def)



subsection \<open>Standardised Euclidean distance of identical rows\<close>











subsection \<open>Running maxima\<close>

lemma fl_le_refl: "x \<noteq> NaN \<Longrightarrow> fl_le x x"
  by (cases x) simp_all

lemma fl_le_maximum: "fl_le (fl_maximum a y) r \<Longrightarrow> fl_le a r"
  by (cases a; cases y; cases r) (simp_all split: if_splits)

lemma fl_le_fmax: "a \<noteq> NaN \<Longrightarrow> fl_le (fl_fmax a y) r \<Longrightarrow> fl_le a r"
  by (cases a; cases y; cases r) (simp_all split: if_splits)

lemma fl_fmax_not_NaN: "a \<noteq> NaN \<Longrightarrow> fl_fmax a y \<noteq> NaN"
  by (cases a; cases y) simp_all

lemma foldl_maximum_inv: "foldl fl_maximum a ys = NaN \<or> fl_le a (foldl fl_maximum a ys)"
proof (induction ys arbitrary: a)
  case Nil
  then show ?case by (cases a) simp_all
next
  case (Cons y ys)
  from Cons.IH[of "fl_maximum a y"] show ?case
    by (auto dest: fl_le_maximum)
qed

lemma foldl_fmax_inv: "a = NaN \<or> fl_le a (foldl fl_fmax a ys)"
proof (induction ys arbitrary: a)
  case Nil
  then show ?case by (cases a) simp_all
next
  case (Cons y ys)
  show ?case
  proof (cases "a = NaN")
    case True
    then show ?thesis by simp
  next
    case False
    with Cons.IH[of "fl_fmax a y"] fl_fmax_not_NaN[OF False, of y]
    have "fl_le (fl_fmax a y) (foldl fl_fmax (fl_fmax a y) ys)" by blast
    with False show ?thesis by (simp add: fl_le_fmax)
  qed
qed

lemma foldl_map2_nth:
  assumes "\<forall>c\<in>set cs. length c = length c0" "i < length c0"
  shows "length (foldl (map2 f) c0 cs) = length c0 \<and>
         foldl (map2 f) c0 cs ! i = foldl f (c0 ! i) (map (\<lambda>c. c ! i) cs)"
  using assms
proof (induction cs arbitrary: c0)
  case Nil
  then show ?case by simp
next
  case (Cons c cs)
  have l: "length (map2 f c0 c) = length c0" using Cons.prems by simp
  have "\<forall>c'\<in>set cs. length c' = length (map2 f c0 c)" using Cons.prems l by simp
  moreover have "i < length (map2 f c0 c)" using Cons.prems l by simp
  ultimately have "length (foldl (map2 f) (map2 f c0 c) cs) = length (map2 f c0 c) \<and>
         foldl (map2 f) (map2 f c0 c) cs ! i = foldl f (map2 f c0 c ! i) (map (\<lambda>c. c ! i) cs)"
    by (rule Cons.IH)
  then show ?case using Cons.prems l by simp
qed

lemma fl_maximum_eq_NaN: "fl_maximum a b = NaN \<longleftrightarrow> a = NaN \<or> b = NaN"
  by (cases a; cases b) simp_all

lemma fl_fmax_eq_NaN: "fl_fmax a b = NaN \<longleftrightarrow> a = NaN \<and> b = NaN"
  by (cases a; cases b) simp_all

lemma foldl_maximum_eq_NaN: "foldl fl_maximum a ys = NaN \<longleftrightarrow> a = NaN \<or> NaN \<in> set ys"
proof (induction ys arbitrary: a)
  case Nil
  show ?case by simp
next
  case (Cons y ys)
  have "foldl fl_maximum a (y # ys) = NaN \<longleftrightarrow> fl_maximum a y = NaN \<or> NaN \<in> set ys"
    using Cons.IH[of "fl_maximum a y"] by simp
  also have "\<dots> \<longleftrightarrow> a = NaN \<or> NaN \<in> set (y # ys)"
    unfolding fl_maximum_eq_NaN by auto
  finally show ?case .
qed

lemma foldl_fmax_eq_NaN: "foldl fl_fmax a ys = NaN \<longleftrightarrow> a = NaN \<and> (\<forall>y\<in>set ys. y = NaN)"
proof (induction ys arbitrary: a)
  case Nil
  show ?case by simp
next
  case (Cons y ys)
  have "foldl fl_fmax a (y # ys) = NaN \<longleftrightarrow> fl_fmax a y = NaN \<and> (\<forall>z\<in>set ys. z = NaN)"
    using Cons.IH[of "fl_fmax a y"] by simp
  also have "\<dots> \<longleftrightarrow> a = NaN \<and> (\<forall>z\<in>set (y # ys). z = NaN)"
    unfolding fl_fmax_eq_NaN by auto
  finally show ?case .
qed

lemma fl_le_trans: "fl_le a b \<Longrightarrow> fl_le b c \<Longrightarrow> fl_le a c"
  by (cases a; cases b; cases c) simp_all

lemma fl_maximum_choice:
  "a \<noteq> NaN \<Longrightarrow> b \<noteq> NaN \<Longrightarrow>
   (fl_maximum a b = a \<or> fl_maximum a b = b) \<and> fl_le a (fl_maximum a b) \<and> fl_le b (fl_maximum a b)"
  by (cases a; cases b) simp_all

lemma fl_fmax_choice:
  "a \<noteq> NaN \<Longrightarrow> b \<noteq> NaN \<Longrightarrow>
   (fl_fmax a b = a \<or> fl_fmax a b = b) \<and> fl_le a (fl_fmax a b) \<and> fl_le b (fl_fmax a b)"
  by (cases a; cases b) simp_all

lemma fl_fmax_NaN_right: "fl_fmax a NaN = a"
  by (cases a) simp_all

lemma foldl_maximum_greatest:
  "a \<noteq> NaN \<Longrightarrow> NaN \<notin> set ys \<Longrightarrow>
   foldl fl_maximum a ys \<in> set (a # ys) \<and> (\<forall>y\<in>set (a # ys). fl_le y (foldl fl_maximum a ys))"
proof (induction ys arbitrary: a)
  case Nil
  then show ?case by (simp add: fl_le_refl)
next
  case (Cons y ys)
  then have a: "a \<noteq> NaN" and y: "y \<noteq> NaN" and ys: "NaN \<notin> set ys" by auto
  let ?m = "fl_maximum a y"
  let ?r = "foldl fl_maximum ?m ys"
  have m: "?m \<noteq> NaN" using a y by (simp add: fl_maximum_eq_NaN)
  from Cons.IH[OF m ys]
  have mem: "?r \<in> set (?m # ys)" and ub: "\<forall>z\<in>set (?m # ys). fl_le z ?r" by blast+
  from ub have mr: "fl_le ?m ?r" by simp
  from fl_maximum_choice[OF a y]
  have mc: "?m = a \<or> ?m = y" and am: "fl_le a ?m" and ym: "fl_le y ?m" by blast+
  have ar: "fl_le a ?r" using am mr by (rule fl_le_trans)
  have yr: "fl_le y ?r" using ym mr by (rule fl_le_trans)
  have 1: "?r \<in> set (a # y # ys)"
  proof (cases "?r = ?m")
    case True
    then show ?thesis using mc by auto
  next
    case False
    then have "?r \<in> set ys" using mem by simp
    then show ?thesis by simp
  qed
  have 2: "\<forall>z\<in>set (a # y # ys). fl_le z ?r"
    using ar yr ub by simp
  show ?case using 1 2 by simp
qed

lemma foldl_fmax_greatest:
  "a \<noteq> NaN \<or> (\<exists>y\<in>set ys. y \<noteq> NaN) \<Longrightarrow>
   foldl fl_fmax a ys \<in> set (a # ys)
   \<and> (\<forall>y\<in>set (a # ys). y \<noteq> NaN \<longrightarrow> fl_le y (foldl fl_fmax a ys))"
proof (induction ys arbitrary: a)
  case Nil
  then show ?case by (simp add: fl_le_refl)
next
  case (Cons y ys)
  let ?m = "fl_fmax a y"
  let ?r = "foldl fl_fmax ?m ys"
  have nn: "?m \<noteq> NaN \<or> (\<exists>z\<in>set ys. z \<noteq> NaN)"
  proof (cases "a = NaN \<and> y = NaN")
    case True
    then show ?thesis using Cons.prems by simp
  next
    case False
    then show ?thesis by (simp add: fl_fmax_eq_NaN)
  qed
  from Cons.IH[OF nn]
  have mem: "?r \<in> set (?m # ys)"
    and ub: "\<forall>z\<in>set (?m # ys). z \<noteq> NaN \<longrightarrow> fl_le z ?r" by blast+
  have ubs: "\<forall>z\<in>set ys. z \<noteq> NaN \<longrightarrow> fl_le z ?r" using ub by simp
  consider (aN) "a = NaN" | (yN) "a \<noteq> NaN" "y = NaN" | (both) "a \<noteq> NaN" "y \<noteq> NaN" by blast
  then show ?case
  proof cases
    case aN
    then have my: "?m = y" by simp
    have 1: "?r \<in> set (a # y # ys)" using mem my by auto
    have 2: "\<forall>z\<in>set (a # y # ys). z \<noteq> NaN \<longrightarrow> fl_le z ?r" using ub my aN by simp
    show ?thesis using 1 2 by simp
  next
    case yN
    then have ma: "?m = a" by (simp add: fl_fmax_NaN_right)
    have 1: "?r \<in> set (a # y # ys)" using mem ma by auto
    have 2: "\<forall>z\<in>set (a # y # ys). z \<noteq> NaN \<longrightarrow> fl_le z ?r" using ub ma yN by simp
    show ?thesis using 1 2 by simp
  next
    case both
    from fl_fmax_choice[OF both]
    have mc: "?m = a \<or> ?m = y" and am: "fl_le a ?m" and ym: "fl_le y ?m" by blast+
    have "?m \<noteq> NaN" using both by (simp add: fl_fmax_eq_NaN)
    then have mr: "fl_le ?m ?r" using ub by simp
    have ar: "fl_le a ?r" using am mr by (rule fl_le_trans)
    have yr: "fl_le y ?r" using ym mr by (rule fl_le_trans)
    have 1: "?r \<in> set (a # y # ys)"
    proof (cases "?r = ?m")
      case True
      then show ?thesis using mc by auto
    next
      case False
      then have "?r \<in> set ys" using mem by simp
      then show ?thesis by simp
    qed
    have 2: "\<forall>z\<in>set (a # y # ys). z \<noteq> NaN \<longrightarrow> fl_le z ?r"
      using ar yr ubs by simp
    show ?thesis using 1 2 by simp
  qed
qed

lemma samples_upt:
  assumes "0 < n"
  shows "g 0 # map g [Suc 0..<n] = map g [0..<n]"
proof -
  have "[0..<n] = 0 # [Suc 0..<n]" using assms by (simp add: upt_conv_Cons)
  then show ?thesis by simp
qed

lemma in_samples:
  assumes "0 < n"
  shows "(x \<in> set (g 0 # map g [Suc 0..<n])) = (\<exists>s<n. x = g s)"
proof -
  have "set (g 0 # map g [Suc 0..<n]) = g ` {0..<n}"
    unfolding samples_upt[OF assms] by simp
  then show ?thesis by auto
qed

lemma all_samples:
  assumes "0 < n"
  shows "(\<forall>y\<in>set (g 0 # map g [Suc 0..<n]). P y) = (\<forall>s<n. P (g s))"
proof -
  have "set (g 0 # map g [Suc 0..<n]) = g ` {0..<n}"
    unfolding samples_upt[OF assms] by simp
  then show ?thesis by auto
qed

lemma running_maximum:
  fixes g :: "nat \<Rightarrow> fl" and n :: nat
  assumes n: "0 < n"
  defines "r \<equiv> foldl fl_maximum (g 0) (map g [Suc 0..<n])"
  shows "(r = NaN) = (\<exists>s<n. g s = NaN)"
    and "\<not> (\<exists>s<n. g s = NaN) \<Longrightarrow> (\<exists>s<n. r = g s) \<and> (\<forall>s<n. fl_le (g s) r)"
proof -
  have "(r = NaN) = (NaN \<in> set (g 0 # map g [Suc 0..<n]))"
    unfolding r_def foldl_maximum_eq_NaN by auto
  also have "\<dots> = (\<exists>s<n. NaN = g s)" by (rule in_samples[OF n])
  finally show 1: "(r = NaN) = (\<exists>s<n. g s = NaN)" by (simp add: eq_commute)
  assume nonan: "\<not> (\<exists>s<n. g s = NaN)"
  then have "\<not> (NaN \<in> set (g 0 # map g [Suc 0..<n]))"
    unfolding in_samples[OF n] by (simp add: eq_commute)
  then have a: "g 0 \<noteq> NaN" and b: "NaN \<notin> set (map g [Suc 0..<n])" by auto
  from foldl_maximum_greatest[OF a b]
  have "r \<in> set (g 0 # map g [Suc 0..<n])" and "\<forall>y\<in>set (g 0 # map g [Suc 0..<n]). fl_le y r"
    unfolding r_def by blast+
  then show "(\<exists>s<n. r = g s) \<and> (\<forall>s<n. fl_le (g s) r)"
    unfolding in_samples[OF n] all_samples[OF n] by blast
qed

lemma running_nanmax:
  fixes g :: "nat \<Rightarrow> fl" and n :: nat
  assumes n: "0 < n"
  defines "r \<equiv> foldl fl_fmax (g 0) (map g [Suc 0..<n])"
  shows "(r = NaN) = (\<forall>s<n. g s = NaN)"
    and "\<not> (\<forall>s<n. g s = NaN) \<Longrightarrow> (\<exists>s<n. r = g s) \<and> (\<forall>s<n. g s \<noteq> NaN \<longrightarrow> fl_le (g s) r)"
proof -
  have "(r = NaN) = (\<forall>y\<in>set (g 0 # map g [Suc 0..<n]). y = NaN)"
    unfolding r_def foldl_fmax_eq_NaN by auto
  also have "\<dots> = (\<forall>s<n. g s = NaN)" by (rule all_samples[OF n])
  finally show 1: "(r = NaN) = (\<forall>s<n. g s = NaN)" .
  assume nn: "\<not> (\<forall>s<n. g s = NaN)"
  then have "\<not> (\<forall>y\<in>set (g 0 # map g [Suc 0..<n]). y = NaN)"
    unfolding all_samples[OF n] .
  then have c: "g 0 \<noteq> NaN \<or> (\<exists>y\<in>set (map g [Suc 0..<n]). y \<noteq> NaN)" by auto
  from foldl_fmax_greatest[OF c]
  have "r \<in> set (g 0 # map g [Suc 0..<n])"
    and "\<forall>y\<in>set (g 0 # map g [Suc 0..<n]). y \<noteq> NaN \<longrightarrow> fl_le y r"
    unfolding r_def by blast+
  then show "(\<exists>s<n. r = g s) \<and> (\<forall>s<n. g s \<noteq> NaN \<longrightarrow> fl_le (g s) r)"
    unfolding in_samples[OF n] all_samples[OF n] by blast
qed

lemma fold_split:
  assumes "0 < N"
  shows "foldl f (g 0) (map g [Suc 0..<N + k])
         = foldl f (foldl f (g 0) (map g [Suc 0..<N])) (map g [N..<N + k])"
proof -
  have "[Suc 0..<N + k] = [Suc 0..<N] @ [N..<N + k]"
    using assms by (intro upt_add_eq_append) simp
  then show ?thesis by simp
qed

subsection \<open>The Monte Carlo loops\<close>

lemma set_nan_length: "set_nan ix arr = Inr col \<Longrightarrow> length col = length arr"
proof -
  have "length (fold (\<lambda>i v. v[i := NaN]) ix v) = length v" for v :: "fl list"
    by (induction ix arbitrary: v) simp_all
  then show "set_nan ix arr = Inr col \<Longrightarrow> length col = length arr"
    by (auto simp: set_nan_def split: if_splits)
qed

lemma step_length:
  "MaxSensitivity_step self model x_batch a_batch p = Inr col \<Longrightarrow> length col = length x_batch"
  by (auto simp: MaxSensitivity_step_def Let_def true_divide_def split: if_splits dest!: set_nan_length)

lemma loop_upt:
  assumes ok: "\<forall>s<N. MaxSensitivity_step self model x_batch a_batch (draws s) = Inr (col s)"
  shows "k \<le> N \<Longrightarrow> length sims = N \<Longrightarrow>
     MaxSensitivity_loop self model x_batch a_batch draws [k..<N] sims = Inr (take k sims @ map col [k..<N])"
proof (induction "N - k" arbitrary: k sims)
  case 0
  then show ?case by simp
next
  case (Suc d)
  then have kN: "k < N" by simp
  have up: "[k..<N] = k # [Suc k..<N]" using kN by (simp add: upt_conv_Cons)
  have st: "MaxSensitivity_step self model x_batch a_batch (draws k) = Inr (col k)" using ok kN by simp
  have "MaxSensitivity_loop self model x_batch a_batch draws [Suc k..<N] (sims[k := col k])
        = Inr (take (Suc k) (sims[k := col k]) @ map col [Suc k..<N])"
    using Suc kN by (intro Suc.hyps(1)) simp_all
  moreover have "take (Suc k) (sims[k := col k]) = take k sims @ [col k]"
    using kN Suc.prems by (simp add: take_Suc_conv_app_nth)
  ultimately show ?case by (simp add: up st)
qed

lemma evaluate_batch_columns:
  assumes ok: "\<forall>s<nr_samples self. MaxSensitivity_step self model x_batch a_batch (draws s) = Inr (col s)"
  shows "MaxSensitivity_evaluate_batch self model x_batch a_batch draws
         = max_func self (map col [0..<nr_samples self])"
  using loop_upt[OF ok, of 0 "replicate (nr_samples self) (replicate (length x_batch) NaN)"]
  by (simp add: MaxSensitivity_evaluate_batch_def Let_def)

lemma step_indep:
  "MaxSensitivity_step (MaxSensitivity_init sf nn nd n flag) model x_batch a_batch p
   = MaxSensitivity_step (MaxSensitivity_init sf nn nd m flag) model x_batch a_batch p"
  by (simp add: MaxSensitivity_step_def MaxSensitivity_init_def)

lemma fold_set_nan_nth:
  "j < length v \<Longrightarrow> fold (\<lambda>i v. v[i := NaN]) ix v ! j = (if j \<in> set ix then NaN else v ! j)"
proof (induction ix arbitrary: v)
  case Nil
  then show ?case by simp
next
  case (Cons a ix)
  then show ?case by (simp add: nth_list_update)
qed

lemma set_nan_nth:
  "set_nan ix arr = Inr col \<Longrightarrow> j < length arr \<Longrightarrow> col ! j = (if j \<in> set ix then NaN else arr ! j)"
  by (auto simp: set_nan_def fold_set_nan_nth split: if_splits)

lemma changed_in_range:
  "list_all (\<lambda>i. i < length x_before) (changed_prediction_indices flag model x_before x_after)"
  by (simp add: changed_prediction_indices_def list_all_iff)

lemma MaxSensitivity_step_nth:
  assumes ln: "length (nn (sf a_batch ap)) = length x_batch"
    and ld: "length (nd a_batch) = length x_batch"
    and i: "i < length x_batch"
  shows "\<exists>column. MaxSensitivity_step (MaxSensitivity_init sf nn nd n flag) model x_batch a_batch
              \<lparr>x_perturbed = xp, a_perturbed = ap\<rparr> = Inr column
          \<and> column ! i =
              (if i \<in> set (changed_prediction_indices flag model x_batch xp) then NaN
               else true_divide (nn (sf a_batch ap)) (nd a_batch) ! i)"
proof -
  let ?q = "true_divide (nn (sf a_batch ap)) (nd a_batch)"
  let ?ch = "changed_prediction_indices flag model x_batch xp"
  have lq: "length ?q = length x_batch" using ln ld by (simp add: true_divide_def)
  have "list_all (\<lambda>i. i < length ?q) ?ch" using changed_in_range[of x_batch flag model] lq by simp
  then have sn: "set_nan ?ch ?q = Inr (fold (\<lambda>i v. v[i := NaN]) ?ch ?q)"
    by (simp add: set_nan_def)
  have st: "MaxSensitivity_step (MaxSensitivity_init sf nn nd n flag) model x_batch a_batch
              \<lparr>x_perturbed = xp, a_perturbed = ap\<rparr> = set_nan ?ch ?q"
    using ln ld by (simp add: MaxSensitivity_step_def MaxSensitivity_init_def make_changed_prediction_indices_func_def)
  have "fold (\<lambda>i v. v[i := NaN]) ?ch ?q ! i = (if i \<in> set ?ch then NaN else ?q ! i)"
    using set_nan_nth[OF sn] i lq by simp
  then show ?thesis using st sn by simp
qed

lemma changed_member:
  "i < length x_before \<Longrightarrow> predict_classes model x_before ! i \<noteq> predict_classes model x_after ! i
   \<Longrightarrow> i \<in> set (changed_prediction_indices True model x_before x_after)"
  by (simp add: changed_prediction_indices_def)

lemma unchanged_empty: "changed_prediction_indices False model x_before x_after = []"
  by (simp add: changed_prediction_indices_def)

lemma RRS_step_nth:
  assumes sel: "arg_layer_names args = None \<or> arg_layer_indices args = None"
    and ob: "relative_representation_stability_objective (arg_eps_min args) reps
               (get_hidden_representations model xp (arg_layer_names args) (arg_layer_indices args))
               e_x e_xs = Inr rrs"
    and lr: "length rrs = length x_batch"
    and i: "i < length x_batch"
  shows "\<exists>self row.
       RelativeRepresentationStability_init (args\<lparr>arg_return_nan_when_prediction_changes := flag\<rparr>) = Inr self
     \<and> RelativeRepresentationStability_step self model x_batch e_x reps
          \<lparr>x_perturbed = xp, a_perturbed = e_xs\<rparr> = Inr row
     \<and> row ! i = (if i \<in> set (changed_prediction_indices flag model x_batch xp) then NaN else rrs ! i)"
proof -
  let ?ch = "changed_prediction_indices flag model x_batch xp"
  let ?self = "\<lparr>rrs_nr_samples = arg_nr_samples args, rrs_eps_min = arg_eps_min args,
      rrs_layer_names = arg_layer_names args, rrs_layer_indices = arg_layer_indices args,
      rrs_changed_prediction_indices_func = make_changed_prediction_indices_func flag,
      rrs_return_aggregate = arg_return_aggregate args, rrs_aggregate_func = arg_aggregate_func args\<rparr>
      :: 'a relative_representation_stability"
  have init: "RelativeRepresentationStability_init (args\<lparr>arg_return_nan_when_prediction_changes := flag\<rparr>)
              = Inr ?self"
    using sel by (auto simp: RelativeRepresentationStability_init_def)
  have "list_all (\<lambda>i. i < length rrs) ?ch" using changed_in_range[of x_batch flag model] lr by simp
  then have sn: "set_nan ?ch rrs = Inr (fold (\<lambda>i v. v[i := NaN]) ?ch rrs)"
    by (simp add: set_nan_def)
  have nth: "fold (\<lambda>i v. v[i := NaN]) ?ch rrs ! i = (if i \<in> set ?ch then NaN else rrs ! i)"
    using set_nan_nth[OF sn] i lr by simp
  have st: "RelativeRepresentationStability_step ?self model x_batch e_x reps
          \<lparr>x_perturbed = xp, a_perturbed = e_xs\<rparr>
        = (if ?ch \<noteq> [] then set_nan ?ch rrs else Inr rrs)"
    using ob lr
    by (simp add: RelativeRepresentationStability_step_def Let_def make_changed_prediction_indices_func_def)
  show ?thesis
  proof (cases "?ch = []")
    case True
    then show ?thesis using init st by simp
  next
    case False
    then show ?thesis using init st sn nth by simp
  qed
qed

lemma linalg_norm_single: "linalg_norm [Fin x] = Fin \<bar>x\<bar>"
  by (simp add: linalg_norm_def)

lemma MaxSensitivity_score_fold:
  assumes n: "0 < n"
    and ok: "\<forall>s<n. MaxSensitivity_step (MaxSensitivity_init sf nn nd m flag) model x_batch a_batch (draws s) = Inr (col s)"
    and i: "i < length x_batch"
  shows "\<exists>scores. MaxSensitivity_evaluate_batch (MaxSensitivity_init sf nn nd n flag) model x_batch a_batch draws = Inr scores
     \<and> length scores = length x_batch
     \<and> scores ! i = foldl (if flag then fl_maximum else fl_fmax) (col 0 ! i) (map (\<lambda>s. col s ! i) [Suc 0..<n])"
proof -
  let ?self = "MaxSensitivity_init sf nn nd n flag :: 'a max_sensitivity"
  let ?f = "if flag then fl_maximum else fl_fmax"
  have c: "\<forall>s<nr_samples ?self. MaxSensitivity_step ?self model x_batch a_batch (draws s) = Inr (col s)"
    using ok step_indep[of sf nn nd n flag model x_batch a_batch _ m]
    by (simp add: MaxSensitivity_init_def)
  have len: "\<forall>s<n. length (col s) = length x_batch"
    using ok step_length by blast
  have e: "MaxSensitivity_evaluate_batch ?self model x_batch a_batch draws = max_func ?self (map col [0..<n])"
    using evaluate_batch_columns[OF c] by (simp add: MaxSensitivity_init_def)
  have u: "map col [0..<n] = col 0 # map col [Suc 0..<n]" using samples_upt[OF n, of col] by simp
  have m: "max_func ?self (map col [0..<n]) = Inr (foldl (map2 ?f) (col 0) (map col [Suc 0..<n]))"
    unfolding u by (simp add: MaxSensitivity_init_def np_max_def np_nanmax_def)
  have l0: "length (col 0) = length x_batch" using len n by simp
  have a1: "\<forall>c\<in>set (map col [Suc 0..<n]). length c = length (col 0)"
    using len l0 by auto
  have i0: "i < length (col 0)" using i l0 by simp
  have r: "length (foldl (map2 ?f) (col 0) (map col [Suc 0..<n])) = length (col 0) \<and>
         foldl (map2 ?f) (col 0) (map col [Suc 0..<n]) ! i
           = foldl ?f (col 0 ! i) (map (\<lambda>c. c ! i) (map col [Suc 0..<n]))"
    by (rule foldl_map2_nth[OF a1 i0])
  have mm: "map (\<lambda>c. c ! i) (map col [Suc 0..<n]) = map (\<lambda>s. col s ! i) [Suc 0..<n]"
    by simp
  show ?thesis
  proof (rule exI[of _ "foldl (map2 ?f) (col 0) (map col [Suc 0..<n])"], intro conjI)
    show "MaxSensitivity_evaluate_batch ?self model x_batch a_batch draws
          = Inr (foldl (map2 ?f) (col 0) (map col [Suc 0..<n]))"
      unfolding e m ..
    show "length (foldl (map2 ?f) (col 0) (map col [Suc 0..<n])) = length x_batch"
      using conjunct1[OF r] l0 by (rule trans)
    show "foldl (map2 ?f) (col 0) (map col [Suc 0..<n]) ! i
          = foldl ?f (col 0 ! i) (map (\<lambda>s. col s ! i) [Suc 0..<n])"
      using conjunct2[OF r] unfolding mm .
  qed
qed

lemma evaluate_batch_no_samples:
  "MaxSensitivity_evaluate_batch (MaxSensitivity_init sf nn nd 0 flag) model x_batch a_batch draws
   = Inl ValueError"
  by (simp add: MaxSensitivity_evaluate_batch_def MaxSensitivity_init_def np_max_def np_nanmax_def)

lemma example_draws_step:
  "MaxSensitivity_step (MaxSensitivity_init difference fro_norm fro_norm n False)
     example_model [0, 1] [[1], [2]] (example_draws s) = Inr [Fin (real s), Fin 0]"
  by (simp add: MaxSensitivity_step_def MaxSensitivity_init_def example_draws_def
      make_changed_prediction_indices_func_def changed_prediction_indices_def
      difference_def fro_norm_def true_divide_def set_nan_def)

lemma masking_draws_step:
  "MaxSensitivity_step (MaxSensitivity_init difference fro_norm fro_norm n True)
     example_model [0, 1] [[1], [2]] (masking_draws s)
   = Inr (if s = 0 then [Fin 2, Fin 0] else [NaN, Fin 0])"
  by (simp add: MaxSensitivity_step_def MaxSensitivity_init_def masking_draws_def
      make_changed_prediction_indices_func_def changed_prediction_indices_def example_model_def
      difference_def fro_norm_def true_divide_def set_nan_def)

lemma upt2: "[0..<2] = [0, 1]" by (simp add: upt_rec)

lemma masking_draws_eval:
  "MaxSensitivity_evaluate_batch (MaxSensitivity_init difference fro_norm fro_norm n True)
     example_model [0, 1] [[1], [2]] masking_draws
   = np_max (map (\<lambda>s. if s = 0 then [Fin 2, Fin 0] else [NaN, Fin 0]) [0..<n])"
proof -
  let ?self = "MaxSensitivity_init difference fro_norm fro_norm n True :: nat max_sensitivity"
  have "\<forall>s<nr_samples ?self. MaxSensitivity_step ?self example_model [0, 1] [[1], [2]] (masking_draws s)
          = Inr (if s = 0 then [Fin 2, Fin 0] else [NaN, Fin 0])"
    using masking_draws_step by blast
  from evaluate_batch_columns[OF this] show ?thesis
    by (simp add: MaxSensitivity_init_def)
qed

subsection \<open>Arrays in memory\<close>










section \<open>Results\<close>

text \<open>
  C1. Sufficiency, range of the score. For a square similarity matrix with
  entries 0 and 1 and every instance \<open>i\<close>, \<open>evaluate_batch\<close> returns a score for
  \<open>i\<close>. If some other instance \<open>j\<close> is connected to \<open>i\<close> (entry 1 off the
  diagonal), the score is a finite number between 0 and 1. If no other instance
  is connected to \<open>i\<close>, the divisor that \<open>np.where\<close> selects for \<open>i\<close> is plus
  infinity and the score is 0.
\<close>

theorem Sufficiency_score_range:
  assumes shape: "has_shape (length (y_pred_classes ctx)) (length (y_pred_classes ctx)) (a_sim_vector_batch ctx)"
    and bin: "binary_matrix (a_sim_vector_batch ctx)"
    and i: "i < length (y_pred_classes ctx)"
  shows "\<exists>ctx' scores. Sufficiency_evaluate_batch ctx = Inr (ctx', scores)
     \<and> length scores = length (y_pred_classes ctx)
     \<and> ((\<exists>j < length (y_pred_classes ctx). j \<noteq> i \<and> a_sim_vector_batch ctx ! i ! j = 1)
          \<longrightarrow> (\<exists>r. scores ! i = Fin r \<and> 0 \<le> r \<and> r \<le> 1))
     \<and> (\<not> (\<exists>j < length (y_pred_classes ctx). j \<noteq> i \<and> a_sim_vector_batch ctx ! i ! j = 1)
          \<longrightarrow> scores ! i = Fin 0
              \<and> where_zero_inf (sum_last (a_sim_vector_batch ctx')) ! i = PInf)"
proof -
  let ?n = "length (y_pred_classes ctx)"
  let ?a = "a_sim_vector_batch ctx"
  let ?y = "y_pred_classes ctx"
  let ?N = "\<Sum>j\<in>{0..<?n} - {i}. if ?y ! j = ?y ! i then ?a ! i ! j else 0"
  let ?S = "\<Sum>j\<in>{0..<?n} - {i}. ?a ! i ! j"
  have ent: "?a ! i ! j = 0 \<or> ?a ! i ! j = 1" if "j < ?n" for j
    using binary_nth[OF bin, of i j] shape i that by (simp add: has_shape_len has_shape_row)
  have nn: "0 \<le> ?a ! i ! j" if "j \<in> {0..<?n} - {i}" for j
    using ent[of j] that by auto
  have N0: "0 \<le> ?N"
    by (rule sum_nonneg) (simp add: nn)
  have NS: "?N \<le> ?S"
    by (rule sum_mono) (simp add: nn)
  obtain ctx' scores where ev: "Sufficiency_evaluate_batch ctx = Inr (ctx', scores)"
    and len: "length scores = ?n"
    and sc: "scores ! i = fl_div (Fin ?N) (if ?S = 0 then PInf else Fin ?S)"
    using scores_nth[OF shape i] by blast
  have ctx': "a_sim_vector_batch ctx' = imul ?a (one_minus (eye ?n))"
    using ev shape by (auto simp: Sufficiency_evaluate_batch_def Let_def)
  have "i < length (sum_last (a_sim_vector_batch ctx'))"
    using shape i by (simp add: ctx' sum_last_def imul_length)
  then have dv: "where_zero_inf (sum_last (a_sim_vector_batch ctx')) ! i = (if ?S = 0 then PInf else Fin ?S)"
    using freq_row[OF shape i] by (simp add: ctx' where_zero_inf_def)
  have conn: "\<exists>r. scores ! i = Fin r \<and> 0 \<le> r \<and> r \<le> 1"
    if "\<exists>j < ?n. j \<noteq> i \<and> ?a ! i ! j = 1"
  proof -
    from that obtain j where j: "j < ?n" "j \<noteq> i" "?a ! i ! j = 1" by blast
    have "?a ! i ! j \<le> ?S"
      by (rule member_le_sum) (use j nn in auto)
    then have Spos: "0 < ?S" using j by simp
    then have "scores ! i = Fin (?N / ?S)" using sc by simp
    moreover have "0 \<le> ?N / ?S" using N0 Spos by simp
    moreover have "?N / ?S \<le> 1" using NS Spos by simp
    ultimately show ?thesis by blast
  qed
  have iso: "scores ! i = Fin 0 \<and> where_zero_inf (sum_last (a_sim_vector_batch ctx')) ! i = PInf"
    if "\<not> (\<exists>j < ?n. j \<noteq> i \<and> ?a ! i ! j = 1)"
  proof -
    have "?a ! i ! j = 0" if "j \<in> {0..<?n} - {i}" for j
      using ent[of j] \<open>\<not> (\<exists>j < ?n. j \<noteq> i \<and> ?a ! i ! j = 1)\<close> that by auto
    then have "?S = 0"
      by (simp add: sum.neutral)
    then show ?thesis using sc dv by simp
  qed
  show ?thesis using ev len conn iso by blast
qed

theorem Sufficiency_score_range_witness:
  "has_shape 3 3 (a_sim_vector_batch example_context) \<and> binary_matrix (a_sim_vector_batch example_context)
   \<and> (\<exists>ctx' scores. Sufficiency_evaluate_batch example_context = Inr (ctx', scores)
        \<and> (\<exists>r. scores ! 0 = Fin r \<and> 0 \<le> r \<and> r \<le> 1)
        \<and> scores ! 2 = Fin 0
        \<and> where_zero_inf (sum_last (a_sim_vector_batch ctx')) ! 2 = PInf)"
proof -
  have n: "length (y_pred_classes example_context) = 3"
    by (simp add: example_context_def)
  have sh: "has_shape (length (y_pred_classes example_context)) (length (y_pred_classes example_context))
             (a_sim_vector_batch example_context)"
    by (simp add: example_context_def has_shape_def)
  have bin: "binary_matrix (a_sim_vector_batch example_context)"
    by (simp add: example_context_def binary_matrix_def)
  have i0: "0 < length (y_pred_classes example_context)" and i2: "2 < length (y_pred_classes example_context)"
    by (simp_all add: n)
  have c0: "\<exists>j < length (y_pred_classes example_context). j \<noteq> 0 \<and> a_sim_vector_batch example_context ! 0 ! j = 1"
    by (rule exI[of _ 1]) (simp add: example_context_def)
  have c2: "\<not> (\<exists>j < length (y_pred_classes example_context). j \<noteq> 2 \<and> a_sim_vector_batch example_context ! 2 ! j = 1)"
  proof
    assume "\<exists>j < length (y_pred_classes example_context). j \<noteq> 2 \<and> a_sim_vector_batch example_context ! 2 ! j = 1"
    then obtain j where j: "j < length (y_pred_classes example_context)" "j \<noteq> 2"
        "a_sim_vector_batch example_context ! 2 ! j = 1"
      by blast
    from j(1) have "j < 3" by (simp only: n)
    with j(2) have "j = 0 \<or> j = 1" by arith
    with j(3) show False by (auto simp: example_context_def)
  qed
  from Sufficiency_score_range[OF sh bin i0] c0 Sufficiency_score_range[OF sh bin i2] c2 sh bin n show ?thesis
    by auto
qed

text \<open>
  C2. Relative Representation Stability, divisor of the objective. With the
  default \<open>eps_min\<close> of one millionth, one instance, a hidden representation that
  moves from 1 to 0.9999999 and an attribution that moves from 1 to 0.5, the
  norm of the relative representation change is one ten-millionth, smaller than
  \<open>eps_min\<close> and not zero. The objective divides by that norm and returns five
  million; dividing by the larger of the norm and \<open>eps_min\<close>, as the formula in
  the docstring of the class says, gives five hundred thousand.
\<close>

theorem rrs_objective_small_representation_change:
  "relative_representation_stability_objective (1 / 1000000)
      [[1]] [[9999999 / 10000000]] (Rank2 [[1]]) (Rank2 [[1 / 2]]) = Inr [Fin 5000000]
   \<and> fl_div (Fin (1 / 2)) (Fin (max (1 / 10000000) (1 / 1000000))) = Fin 500000"
  by (simp add: relative_representation_stability_objective_def relative_change_def linalg_norm_single)




text \<open>
  C4. Changed-prediction masking, for one perturbation sample and an instance
  \<open>i\<close> whose predicted class differs between the original and the perturbed
  batch. Max-Sensitivity: constructed with masking, the value written for \<open>i\<close>
  is NaN; constructed without, it is the quotient of the two norms computed for
  \<open>i\<close>. Relative Representation Stability: constructed with masking, the value
  written for \<open>i\<close> is NaN; constructed without, it is the value of the objective
  for \<open>i\<close>.
\<close>

theorem changed_prediction_masking:
  assumes i: "i < length x_batch"
    and ch: "predict_classes model x_batch ! i \<noteq> predict_classes model xp ! i"
    and ln: "length (nn (sf a_batch ap)) = length x_batch"
    and ld: "length (nd a_batch) = length x_batch"
    and sel: "arg_layer_names args = None \<or> arg_layer_indices args = None"
    and ob: "relative_representation_stability_objective (arg_eps_min args) reps
               (get_hidden_representations model xp (arg_layer_names args) (arg_layer_indices args))
               e_x e_xs = Inr rrs"
    and lr: "length rrs = length x_batch"
  shows "(\<exists>column. MaxSensitivity_step (MaxSensitivity_init sf nn nd n True) model x_batch a_batch
             \<lparr>x_perturbed = xp, a_perturbed = ap\<rparr> = Inr column
           \<and> column ! i = NaN)
     \<and> (\<exists>column. MaxSensitivity_step (MaxSensitivity_init sf nn nd n False) model x_batch a_batch
             \<lparr>x_perturbed = xp, a_perturbed = ap\<rparr> = Inr column
           \<and> column ! i = fl_div (Fin (nn (sf a_batch ap) ! i)) (Fin (nd a_batch ! i)))
     \<and> (\<exists>self row.
           RelativeRepresentationStability_init
             (args\<lparr>arg_return_nan_when_prediction_changes := True\<rparr>) = Inr self
         \<and> RelativeRepresentationStability_step self model x_batch e_x reps
              \<lparr>x_perturbed = xp, a_perturbed = e_xs\<rparr> = Inr row
         \<and> row ! i = NaN)
     \<and> (\<exists>self row.
           RelativeRepresentationStability_init
             (args\<lparr>arg_return_nan_when_prediction_changes := False\<rparr>) = Inr self
         \<and> RelativeRepresentationStability_step self model x_batch e_x reps
              \<lparr>x_perturbed = xp, a_perturbed = e_xs\<rparr> = Inr row
         \<and> row ! i = rrs ! i)"
proof -
  have q: "true_divide (nn (sf a_batch ap)) (nd a_batch) ! i
           = fl_div (Fin (nn (sf a_batch ap) ! i)) (Fin (nd a_batch ! i))"
    using ln ld i by (simp add: true_divide_def)
  have m: "i \<in> set (changed_prediction_indices True model x_batch xp)"
    using changed_member[OF i ch] .
  have a: "\<exists>column. MaxSensitivity_step (MaxSensitivity_init sf nn nd n True) model x_batch a_batch
             \<lparr>x_perturbed = xp, a_perturbed = ap\<rparr> = Inr column
           \<and> column ! i = NaN"
    using MaxSensitivity_step_nth[where nn=nn and sf=sf and nd=nd and a_batch=a_batch and ap=ap
        and n=n and flag=True and model=model and xp=xp, OF ln ld i] m
    by simp
  have b: "\<exists>column. MaxSensitivity_step (MaxSensitivity_init sf nn nd n False) model x_batch a_batch
             \<lparr>x_perturbed = xp, a_perturbed = ap\<rparr> = Inr column
           \<and> column ! i = fl_div (Fin (nn (sf a_batch ap) ! i)) (Fin (nd a_batch ! i))"
    using MaxSensitivity_step_nth[where nn=nn and sf=sf and nd=nd and a_batch=a_batch and ap=ap
        and n=n and flag=False and model=model and xp=xp, OF ln ld i] q
    by (simp add: unchanged_empty)
  have c: "\<exists>self row.
           RelativeRepresentationStability_init
             (args\<lparr>arg_return_nan_when_prediction_changes := True\<rparr>) = Inr self
         \<and> RelativeRepresentationStability_step self model x_batch e_x reps
              \<lparr>x_perturbed = xp, a_perturbed = e_xs\<rparr> = Inr row
         \<and> row ! i = NaN"
    using RRS_step_nth[OF sel ob lr i, of True] m by simp
  have d: "\<exists>self row.
           RelativeRepresentationStability_init
             (args\<lparr>arg_return_nan_when_prediction_changes := False\<rparr>) = Inr self
         \<and> RelativeRepresentationStability_step self model x_batch e_x reps
              \<lparr>x_perturbed = xp, a_perturbed = e_xs\<rparr> = Inr row
         \<and> row ! i = rrs ! i"
    using RRS_step_nth[OF sel ob lr i, of False] by (simp add: unchanged_empty)
  show ?thesis using a b c d by blast
qed

theorem changed_prediction_masking_witness:
  "(\<exists>column. MaxSensitivity_step (MaxSensitivity_init difference fro_norm fro_norm 1 True)
        example_model [0, 1] [[1], [2]] \<lparr>x_perturbed = [10, 11], a_perturbed = [[3], [2]]\<rparr>
        = Inr column \<and> column ! 0 = NaN)
   \<and> (\<exists>column. MaxSensitivity_step (MaxSensitivity_init difference fro_norm fro_norm 1 False)
        example_model [0, 1] [[1], [2]] \<lparr>x_perturbed = [10, 11], a_perturbed = [[3], [2]]\<rparr>
        = Inr column \<and> column ! 0 = Fin 2)
   \<and> (\<exists>self row.
        RelativeRepresentationStability_init
          (example_args\<lparr>arg_return_nan_when_prediction_changes := True\<rparr>) = Inr self
      \<and> RelativeRepresentationStability_step self example_model [0, 1] (Rank2 [[1], [2]])
           [[1], [2]] \<lparr>x_perturbed = [10, 11], a_perturbed = Rank2 [[1 / 2], [1]]\<rparr> = Inr row
      \<and> row ! 0 = NaN)
   \<and> (\<exists>self row.
        RelativeRepresentationStability_init
          (example_args\<lparr>arg_return_nan_when_prediction_changes := False\<rparr>) = Inr self
      \<and> RelativeRepresentationStability_step self example_model [0, 1] (Rank2 [[1], [2]])
           [[1], [2]] \<lparr>x_perturbed = [10, 11], a_perturbed = Rank2 [[1 / 2], [1]]\<rparr> = Inr row
      \<and> row ! 0 = Fin (1 / 20))"
proof -
  have i: "(0::nat) < length [0::nat, 1]" by simp
  have ch: "predict_classes example_model [0, 1] ! 0 \<noteq> predict_classes example_model [10, 11] ! 0"
    by (simp add: example_model_def)
  have ln: "length (fro_norm (difference [[1], [2]] [[3], [2]])) = length [0::nat, 1]"
    by (simp add: fro_norm_def difference_def)
  have ld: "length (fro_norm [[1], [2]]) = length [0::nat, 1]"
    by (simp add: fro_norm_def)
  have sel: "arg_layer_names example_args = None \<or> arg_layer_indices example_args = None"
    by (simp add: example_args_def)
  have ob: "relative_representation_stability_objective (arg_eps_min example_args) [[1], [2]]
      (get_hidden_representations example_model [10, 11]
         (arg_layer_names example_args) (arg_layer_indices example_args))
      (Rank2 [[1], [2]]) (Rank2 [[1 / 2], [1]]) = Inr [Fin (1 / 20), Fin (1 / 10)]"
    by (simp add: relative_representation_stability_objective_def relative_change_def
        linalg_norm_single example_model_def example_args_def)
  have lr: "length [Fin (1 / 20), Fin (1 / 10)] = length [0::nat, 1]" by simp
  have v: "fro_norm (difference [[1], [2]] [[3], [2]]) ! 0 = 2" "fro_norm [[1], [2]] ! 0 = 1"
    by (simp_all add: fro_norm_def difference_def)
  from changed_prediction_masking[where sf=difference and nn=fro_norm and nd=fro_norm
      and a_batch="[[1], [2]]" and ap="[[3], [2]]" and n=1, OF i ch ln ld sel ob lr]
  show ?thesis by (simp add: v)
qed




text \<open>
  C6. Sufficiency, self-exclusion. For a square similarity matrix and every
  instance \<open>i\<close>, the score of \<open>i\<close> is the quotient of two sums that range over
  the instances \<open>j\<close> other than \<open>i\<close>: the entries of row \<open>i\<close> whose instance has
  the predicted class of \<open>i\<close>, over all entries of row \<open>i\<close> (plus infinity in
  place of a zero sum). The diagonal entry does not enter either sum: whatever
  value it is replaced by, the score of \<open>i\<close> is the same.
\<close>

theorem Sufficiency_self_exclusion:
  assumes shape: "has_shape (length (y_pred_classes ctx)) (length (y_pred_classes ctx)) (a_sim_vector_batch ctx)"
    and i: "i < length (y_pred_classes ctx)"
  shows "\<exists>ctx' scores. Sufficiency_evaluate_batch ctx = Inr (ctx', scores)
     \<and> scores ! i = fl_div
         (Fin (\<Sum>j\<in>{0..<length (y_pred_classes ctx)} - {i}.
              if y_pred_classes ctx ! j = y_pred_classes ctx ! i then a_sim_vector_batch ctx ! i ! j else 0))
         (if (\<Sum>j\<in>{0..<length (y_pred_classes ctx)} - {i}. a_sim_vector_batch ctx ! i ! j) = 0 then PInf
          else Fin (\<Sum>j\<in>{0..<length (y_pred_classes ctx)} - {i}. a_sim_vector_batch ctx ! i ! j))
     \<and> (\<forall>v. \<exists>ctx'' scores'.
           Sufficiency_evaluate_batch
             (ctx\<lparr>a_sim_vector_batch := (a_sim_vector_batch ctx)[i := (a_sim_vector_batch ctx ! i)[i := v]]\<rparr>)
           = Inr (ctx'', scores') \<and> scores' ! i = scores ! i)"
proof -
  let ?n = "length (y_pred_classes ctx)"
  let ?a = "a_sim_vector_batch ctx"
  let ?y = "y_pred_classes ctx"
  obtain ctx' scores where ev: "Sufficiency_evaluate_batch ctx = Inr (ctx', scores)"
    and sc: "scores ! i = fl_div
         (Fin (\<Sum>j\<in>{0..<?n} - {i}. if ?y ! j = ?y ! i then ?a ! i ! j else 0))
         (if (\<Sum>j\<in>{0..<?n} - {i}. ?a ! i ! j) = 0 then PInf else Fin (\<Sum>j\<in>{0..<?n} - {i}. ?a ! i ! j))"
    using scores_nth[OF shape i] by blast
  have upd: "\<exists>ctx'' scores'. Sufficiency_evaluate_batch (ctx\<lparr>a_sim_vector_batch := ?a[i := (?a ! i)[i := v]]\<rparr>)
           = Inr (ctx'', scores') \<and> scores' ! i = scores ! i" for v
  proof -
    let ?b = "?a[i := (?a ! i)[i := v]]"
    let ?c = "ctx\<lparr>a_sim_vector_batch := ?b\<rparr>"
    have la: "i < length ?a" using shape i by (simp add: has_shape_len)
    have off: "?b ! i ! j = ?a ! i ! j" if "j \<in> {0..<?n} - {i}" for j
      using that la by simp
    have s1: "(\<Sum>j\<in>{0..<?n} - {i}. ?b ! i ! j) = (\<Sum>j\<in>{0..<?n} - {i}. ?a ! i ! j)"
      by (rule sum.cong) (simp_all add: off)
    have s2: "(\<Sum>j\<in>{0..<?n} - {i}. if ?y ! j = ?y ! i then ?b ! i ! j else 0)
            = (\<Sum>j\<in>{0..<?n} - {i}. if ?y ! j = ?y ! i then ?a ! i ! j else 0)"
      by (rule sum.cong) (simp_all add: off)
    have sh': "has_shape ?n ?n ?b"
      using has_shape_diag_update[OF shape i] by simp
    obtain ctx'' scores' where ev': "Sufficiency_evaluate_batch ?c = Inr (ctx'', scores')"
      and sc': "scores' ! i = fl_div
         (Fin (\<Sum>j\<in>{0..<?n} - {i}. if ?y ! j = ?y ! i then ?b ! i ! j else 0))
         (if (\<Sum>j\<in>{0..<?n} - {i}. ?b ! i ! j) = 0 then PInf else Fin (\<Sum>j\<in>{0..<?n} - {i}. ?b ! i ! j))"
      using scores_nth_gen[OF sh' i, of ?c ?y] by auto
    have "scores' ! i = scores ! i"
      unfolding sc sc' s1 s2 ..
    with ev' show ?thesis by blast
  qed
  show ?thesis using ev sc upd by blast
qed

theorem Sufficiency_self_exclusion_witness:
  "has_shape (length (y_pred_classes example_context)) (length (y_pred_classes example_context))
      (a_sim_vector_batch example_context)
   \<and> 0 < length (y_pred_classes example_context)
   \<and> (\<exists>ctx' scores. Sufficiency_evaluate_batch example_context = Inr (ctx', scores)
     \<and> scores ! 0 = fl_div
         (Fin (\<Sum>j\<in>{0..<length (y_pred_classes example_context)} - {0}.
              if y_pred_classes example_context ! j = y_pred_classes example_context ! 0
              then a_sim_vector_batch example_context ! 0 ! j else 0))
         (if (\<Sum>j\<in>{0..<length (y_pred_classes example_context)} - {0}. a_sim_vector_batch example_context ! 0 ! j) = 0 then PInf
          else Fin (\<Sum>j\<in>{0..<length (y_pred_classes example_context)} - {0}. a_sim_vector_batch example_context ! 0 ! j))
     \<and> (\<forall>v. \<exists>ctx'' scores'.
           Sufficiency_evaluate_batch
             (example_context\<lparr>a_sim_vector_batch := (a_sim_vector_batch example_context)[0 := (a_sim_vector_batch example_context ! 0)[0 := v]]\<rparr>)
           = Inr (ctx'', scores') \<and> scores' ! 0 = scores ! 0))"
proof -
  have sh: "has_shape (length (y_pred_classes example_context)) (length (y_pred_classes example_context))
             (a_sim_vector_batch example_context)"
    by (simp add: example_context_def has_shape_def)
  have i0: "0 < length (y_pred_classes example_context)"
    by (simp add: example_context_def)
  show ?thesis
    using sh i0 Sufficiency_self_exclusion[OF sh i0] by (intro conjI)
qed

text \<open>
  C7. Max-Sensitivity, the score as a running maximum (amended). With
  \<open>nr_samples = 0\<close> the reduction raises \<open>ValueError\<close>. For \<open>N\<close> at least 1, a fixed
  realization of the perturbation process whose first \<open>N + k\<close> draws give the
  per-sample columns \<open>col s\<close>, and every instance \<open>i\<close>, \<open>evaluate_batch\<close> returns
  scores both with \<open>nr_samples = N\<close> and with \<open>nr_samples = N + k\<close>.

  Without masking (\<open>np.nanmax\<close>, the default): the score with \<open>N\<close> samples is NaN
  exactly when all \<open>N\<close> per-sample values are NaN; otherwise it is one of the
  per-sample values, at least every per-sample value that is not NaN, and at
  most the score with \<open>N + k\<close> samples.

  With masking (\<open>np.max\<close>): the score is NaN exactly when one of the per-sample
  values is NaN, so a sample whose prediction changed turns the score into NaN
  from then on; a score that is not NaN is one of the per-sample values and at
  least every one of them; and when the score with \<open>N + k\<close> samples is not NaN,
  the score with \<open>N\<close> samples is at most that score.
\<close>

theorem MaxSensitivity_running_maximum:
  assumes N: "0 < N"
    and ok: "\<forall>s<N + k.
       MaxSensitivity_step (MaxSensitivity_init sf nn nd (N + k) flag) model x_batch a_batch (draws s)
         = Inr (col s)"
    and i: "i < length x_batch"
  shows "MaxSensitivity_evaluate_batch (MaxSensitivity_init sf nn nd 0 flag) model x_batch a_batch draws
           = Inl ValueError
     \<and> (\<exists>scores scores'.
         MaxSensitivity_evaluate_batch (MaxSensitivity_init sf nn nd N flag) model x_batch a_batch draws
           = Inr scores
       \<and> MaxSensitivity_evaluate_batch (MaxSensitivity_init sf nn nd (N + k) flag) model x_batch a_batch draws
           = Inr scores'
       \<and> length scores = length x_batch \<and> length scores' = length x_batch
       \<and> (\<not> flag \<longrightarrow>
             (scores ! i = NaN) = (\<forall>s<N. col s ! i = NaN)
           \<and> (scores ! i \<noteq> NaN \<longrightarrow>
                 (\<exists>s<N. scores ! i = col s ! i)
               \<and> (\<forall>s<N. col s ! i \<noteq> NaN \<longrightarrow> fl_le (col s ! i) (scores ! i))
               \<and> fl_le (scores ! i) (scores' ! i)))
       \<and> (flag \<longrightarrow>
             (scores ! i = NaN) = (\<exists>s<N. col s ! i = NaN)
           \<and> (scores' ! i = NaN) = (\<exists>s<N + k. col s ! i = NaN)
           \<and> (scores ! i \<noteq> NaN \<longrightarrow>
                 (\<exists>s<N. scores ! i = col s ! i) \<and> (\<forall>s<N. fl_le (col s ! i) (scores ! i)))
           \<and> (scores' ! i \<noteq> NaN \<longrightarrow> fl_le (scores ! i) (scores' ! i))))"
proof -
  let ?g = "\<lambda>s. col s ! i"
  let ?f = "if flag then fl_maximum else fl_fmax"
  have okN: "\<forall>s<N.
       MaxSensitivity_step (MaxSensitivity_init sf nn nd (N + k) flag) model x_batch a_batch (draws s)
         = Inr (col s)"
    using ok by simp
  have Nk: "0 < N + k" using N by simp
  obtain scores where e1: "MaxSensitivity_evaluate_batch (MaxSensitivity_init sf nn nd N flag) model
        x_batch a_batch draws = Inr scores"
    and l1: "length scores = length x_batch"
    and s1: "scores ! i = foldl ?f (?g 0) (map ?g [Suc 0..<N])"
    using MaxSensitivity_score_fold[OF N okN i] by blast
  obtain scores' where e2: "MaxSensitivity_evaluate_batch (MaxSensitivity_init sf nn nd (N + k) flag) model
        x_batch a_batch draws = Inr scores'"
    and l2: "length scores' = length x_batch"
    and s2: "scores' ! i = foldl ?f (?g 0) (map ?g [Suc 0..<N + k])"
    using MaxSensitivity_score_fold[OF Nk ok i] by blast
  have sp: "scores' ! i = foldl ?f (scores ! i) (map ?g [N..<N + k])"
    unfolding s1 s2 by (rule fold_split[OF N])
  have A: "(scores ! i = NaN) = (\<forall>s<N. ?g s = NaN)
           \<and> (scores ! i \<noteq> NaN \<longrightarrow>
                 (\<exists>s<N. scores ! i = ?g s)
               \<and> (\<forall>s<N. ?g s \<noteq> NaN \<longrightarrow> fl_le (?g s) (scores ! i))
               \<and> fl_le (scores ! i) (scores' ! i))" if nf: "\<not> flag"
  proof -
    have t1: "scores ! i = foldl fl_fmax (?g 0) (map ?g [Suc 0..<N])" using s1 nf by simp
    have t2: "scores' ! i = foldl fl_fmax (scores ! i) (map ?g [N..<N + k])" using sp nf by simp
    have c1: "(scores ! i = NaN) = (\<forall>s<N. ?g s = NaN)"
      unfolding t1 by (rule running_nanmax(1)[OF N])
    have c2: "(\<exists>s<N. scores ! i = ?g s) \<and> (\<forall>s<N. ?g s \<noteq> NaN \<longrightarrow> fl_le (?g s) (scores ! i))"
      if "scores ! i \<noteq> NaN"
    proof -
      from that c1 have "\<not> (\<forall>s<N. ?g s = NaN)" by simp
      from running_nanmax(2)[OF N this] show ?thesis unfolding t1 .
    qed
    have c3: "fl_le (scores ! i) (scores' ! i)" if "scores ! i \<noteq> NaN"
      using foldl_fmax_inv[of "scores ! i" "map ?g [N..<N + k]"] that unfolding t2 by simp
    show ?thesis using c1 c2 c3 by blast
  qed
  have B: "(scores ! i = NaN) = (\<exists>s<N. ?g s = NaN)
           \<and> (scores' ! i = NaN) = (\<exists>s<N + k. ?g s = NaN)
           \<and> (scores ! i \<noteq> NaN \<longrightarrow>
                 (\<exists>s<N. scores ! i = ?g s) \<and> (\<forall>s<N. fl_le (?g s) (scores ! i)))
           \<and> (scores' ! i \<noteq> NaN \<longrightarrow> fl_le (scores ! i) (scores' ! i))" if fl: "flag"
  proof -
    have t1: "scores ! i = foldl fl_maximum (?g 0) (map ?g [Suc 0..<N])" using s1 fl by simp
    have t1': "scores' ! i = foldl fl_maximum (?g 0) (map ?g [Suc 0..<N + k])" using s2 fl by simp
    have t2: "scores' ! i = foldl fl_maximum (scores ! i) (map ?g [N..<N + k])" using sp fl by simp
    have c1: "(scores ! i = NaN) = (\<exists>s<N. ?g s = NaN)"
      unfolding t1 by (rule running_maximum(1)[OF N])
    have c1': "(scores' ! i = NaN) = (\<exists>s<N + k. ?g s = NaN)"
      unfolding t1' by (rule running_maximum(1)[OF Nk])
    have c2: "(\<exists>s<N. scores ! i = ?g s) \<and> (\<forall>s<N. fl_le (?g s) (scores ! i))"
      if "scores ! i \<noteq> NaN"
    proof -
      from that c1 have "\<not> (\<exists>s<N. ?g s = NaN)" by simp
      from running_maximum(2)[OF N this] show ?thesis unfolding t1 .
    qed
    have c3: "fl_le (scores ! i) (scores' ! i)" if "scores' ! i \<noteq> NaN"
      using foldl_maximum_inv[of "scores ! i" "map ?g [N..<N + k]"] that unfolding t2 by simp
    show ?thesis using c1 c1' c2 c3 by blast
  qed
  show ?thesis
    using evaluate_batch_no_samples[of sf nn nd flag model x_batch a_batch draws] e1 e2 l1 l2 A B
    by blast
qed

theorem MaxSensitivity_running_maximum_witness:
  "(\<exists>scores scores'.
       MaxSensitivity_evaluate_batch (MaxSensitivity_init difference fro_norm fro_norm 1 False)
         example_model [0, 1] [[1], [2]] example_draws = Inr scores
     \<and> MaxSensitivity_evaluate_batch (MaxSensitivity_init difference fro_norm fro_norm (1 + 1) False)
         example_model [0, 1] [[1], [2]] example_draws = Inr scores'
     \<and> scores ! 0 = Fin 0 \<and> fl_le (scores ! 0) (scores' ! 0))
   \<and> (\<exists>scores scores'.
       MaxSensitivity_evaluate_batch (MaxSensitivity_init difference fro_norm fro_norm 1 True)
         example_model [0, 1] [[1], [2]] masking_draws = Inr scores
     \<and> MaxSensitivity_evaluate_batch (MaxSensitivity_init difference fro_norm fro_norm (1 + 1) True)
         example_model [0, 1] [[1], [2]] masking_draws = Inr scores'
     \<and> scores ! 0 = Fin 2 \<and> scores' ! 0 = NaN)"
proof -
  have N: "(0::nat) < 1" by simp
  have i: "(0::nat) < length [0::nat, 1]" by simp
  have ok1: "\<forall>s<1 + 1.
       MaxSensitivity_step (MaxSensitivity_init difference fro_norm fro_norm (1 + 1) False)
         example_model [0, 1] [[1], [2]] (example_draws s) = Inr [Fin (real s), Fin 0]"
    using example_draws_step by blast
  have ok2: "\<forall>s<1 + 1.
       MaxSensitivity_step (MaxSensitivity_init difference fro_norm fro_norm (1 + 1) True)
         example_model [0, 1] [[1], [2]] (masking_draws s)
         = Inr (if s = 0 then [Fin 2, Fin 0] else [NaN, Fin 0])"
    using masking_draws_step by blast
  from MaxSensitivity_running_maximum[OF N ok1 i]
  have a: "\<exists>scores scores'.
       MaxSensitivity_evaluate_batch (MaxSensitivity_init difference fro_norm fro_norm 1 False)
         example_model [0, 1] [[1], [2]] example_draws = Inr scores
     \<and> MaxSensitivity_evaluate_batch (MaxSensitivity_init difference fro_norm fro_norm (1 + 1) False)
         example_model [0, 1] [[1], [2]] example_draws = Inr scores'
     \<and> scores ! 0 = Fin 0 \<and> fl_le (scores ! 0) (scores' ! 0)"
    by (auto simp: less_Suc_eq)
  from MaxSensitivity_running_maximum[OF N ok2 i]
  have b: "\<exists>scores scores'.
       MaxSensitivity_evaluate_batch (MaxSensitivity_init difference fro_norm fro_norm 1 True)
         example_model [0, 1] [[1], [2]] masking_draws = Inr scores
     \<and> MaxSensitivity_evaluate_batch (MaxSensitivity_init difference fro_norm fro_norm (1 + 1) True)
         example_model [0, 1] [[1], [2]] masking_draws = Inr scores'
     \<and> scores ! 0 = Fin 2 \<and> scores' ! 0 = NaN"
    by (auto simp: less_Suc_eq)
  show ?thesis using a b by blast
qed

text \<open>
  C7, counterexample. The claim as stated fails with masking: the first sample
  gives the first instance the value 2, the second sample changes its predicted
  class, and the score goes from 2 with one sample to NaN with two samples,
  which is not greater than or equal to 2.
\<close>

theorem MaxSensitivity_masked_sample_gives_NaN:
  "MaxSensitivity_evaluate_batch (MaxSensitivity_init difference fro_norm fro_norm 1 True)
     example_model [0, 1] [[1], [2]] masking_draws = Inr [Fin 2, Fin 0]
   \<and> MaxSensitivity_evaluate_batch (MaxSensitivity_init difference fro_norm fro_norm 2 True)
     example_model [0, 1] [[1], [2]] masking_draws = Inr [NaN, Fin 0]
   \<and> \<not> fl_le (Fin 2) NaN"
  using masking_draws_eval[of 1] masking_draws_eval[of 2]
  by (simp add: upt2 np_max_def)

text \<open>
  C8. Max-Sensitivity, no guard on the denominator. For every sample and every
  instance \<open>i\<close>, the quotient computed for \<open>i\<close> is the numerator norm divided by
  the denominator norm as it is: when the denominator norm is 0 the quotient is
  NaN (numerator 0) or an infinity with the sign of the numerator, never a
  value obtained from a substituted divisor. The value written for \<open>i\<close> is that
  quotient, unless changed-prediction masking overwrites it with NaN.
\<close>

theorem MaxSensitivity_no_zero_guard:
  assumes ln: "length (nn (sf a_batch ap)) = length x_batch"
    and ld: "length (nd a_batch) = length x_batch"
    and i: "i < length x_batch"
  shows "true_divide (nn (sf a_batch ap)) (nd a_batch) ! i
           = fl_div (Fin (nn (sf a_batch ap) ! i)) (Fin (nd a_batch ! i))
     \<and> (nd a_batch ! i = 0 \<longrightarrow>
          true_divide (nn (sf a_batch ap)) (nd a_batch) ! i
            = (if nn (sf a_batch ap) ! i = 0 then NaN
               else if 0 < nn (sf a_batch ap) ! i then PInf else NInf))
     \<and> (\<exists>column. MaxSensitivity_step (MaxSensitivity_init sf nn nd n flag) model x_batch a_batch
            \<lparr>x_perturbed = xp, a_perturbed = ap\<rparr> = Inr column
          \<and> column ! i =
              (if i \<in> set (changed_prediction_indices flag model x_batch xp) then NaN
               else true_divide (nn (sf a_batch ap)) (nd a_batch) ! i))"
proof -
  have q: "true_divide (nn (sf a_batch ap)) (nd a_batch) ! i
           = fl_div (Fin (nn (sf a_batch ap) ! i)) (Fin (nd a_batch ! i))"
    using ln ld i by (simp add: true_divide_def)
  from MaxSensitivity_step_nth[where nn=nn and sf=sf and nd=nd and a_batch=a_batch and ap=ap
      and n=n and flag=flag and model=model and xp=xp, OF ln ld i] q
  show ?thesis by simp
qed

theorem MaxSensitivity_no_zero_guard_witness:
  "true_divide (fro_norm (difference [[0], [2]] [[1], [2]])) (fro_norm [[0], [2]]) ! 0 = PInf
   \<and> (\<exists>column. MaxSensitivity_step (MaxSensitivity_init difference fro_norm fro_norm 1 False)
         example_model [0, 1] [[0], [2]] \<lparr>x_perturbed = [10, 11], a_perturbed = [[1], [2]]\<rparr>
         = Inr column \<and> column ! 0 = PInf)"
proof -
  have ln: "length (fro_norm (difference [[0], [2]] [[1], [2]])) = length [0::nat, 1]"
    by (simp add: fro_norm_def difference_def)
  have ld: "length (fro_norm [[0], [2]]) = length [0::nat, 1]"
    by (simp add: fro_norm_def)
  have i: "(0::nat) < length [0::nat, 1]" by simp
  have v: "fro_norm (difference [[0], [2]] [[1], [2]]) ! 0 = 1" "fro_norm [[0], [2]] ! 0 = 0"
    by (simp_all add: fro_norm_def difference_def)
  from MaxSensitivity_no_zero_guard[where sf=difference and nn=fro_norm and nd=fro_norm
      and a_batch="[[0], [2]]" and ap="[[1], [2]]" and n=1 and flag=False and model=example_model
      and xp="[10, 11]", OF ln ld i]
  show ?thesis by (auto simp: v unchanged_empty)
qed

text \<open>
  C9. Relative Representation Stability, layer selector. The constructor raises
  \<open>ValueError\<close> exactly when \<open>layer_names\<close> and \<open>layer_indices\<close> are both given, and
  returns a metric exactly when at least one of them is \<open>None\<close>; the check is
  part of construction and needs no evaluation call.
\<close>

theorem RelativeRepresentationStability_init_selector:
  "((RelativeRepresentationStability_init args :: error + 'x relative_representation_stability) = Inl ValueError)
     = (arg_layer_names args \<noteq> None \<and> arg_layer_indices args \<noteq> None)
   \<and> (\<exists>self :: 'x relative_representation_stability. RelativeRepresentationStability_init args = Inr self)
     = (arg_layer_names args = None \<or> arg_layer_indices args = None)"
  by (auto simp: RelativeRepresentationStability_init_def)

text \<open>
  C10. \<open>BatchSufficiency.evaluate_batch\<close> and \<open>Sufficiency.evaluate_batch\<close> agree on
  every batch context: they return the same scores (or fail alike) and leave the
  context in the same state.
\<close>

theorem BatchSufficiency_eq_Sufficiency:
  "BatchSufficiency_evaluate_batch ctx = Sufficiency_evaluate_batch ctx"
  by (simp add: BatchSufficiency_evaluate_batch_def Sufficiency_evaluate_batch_def)

end
